theory Spec2Isabelle
  imports Main
begin

section \<open>The dotprompt grammar tables (src/packages/treesitter/src/parser.c)\<close>

text \<open>
  The parser of dotprompt templates is a generated table-driven parser: a lexer function
  \<open>ts_lex\<close>, written as one big \<open>switch\<close> over the lexer state, and the shift/reduce
  tables \<open>ts_lex_modes\<close>, \<open>ts_parse_table\<close>, \<open>ts_small_parse_table\<close> and
  \<open>ts_parse_actions\<close>. Symbols and states are small unsigned integers in the source
  (\<open>TSSymbol\<close>, \<open>TSStateId\<close>); no arithmetic is done on them, so they are naturals here.
  The lookahead of the lexer is an \<open>int32_t\<close> code point, and the input is the
  sequence of these code points.
\<close>

type_synonym TSSymbol = nat
type_synonym TSStateId = nat

abbreviation (input) STATE_COUNT :: nat where "STATE_COUNT \<equiv> 87"
abbreviation (input) LARGE_STATE_COUNT :: nat where "LARGE_STATE_COUNT \<equiv> 2"
abbreviation (input) TOKEN_COUNT :: nat where "TOKEN_COUNT \<equiv> 33"

subsection \<open>enum ts_symbol_identifiers\<close>

abbreviation (input) ts_builtin_sym_end :: TSSymbol where "ts_builtin_sym_end \<equiv> 0"
abbreviation (input) sym_header_comment :: TSSymbol where "sym_header_comment \<equiv> 1"
abbreviation (input) aux_sym_frontmatter_token1 :: TSSymbol where "aux_sym_frontmatter_token1 \<equiv> 2"
abbreviation (input) sym_frontmatter_delimiter :: TSSymbol where "sym_frontmatter_delimiter \<equiv> 3"
abbreviation (input) aux_sym__yaml_content_token1 :: TSSymbol where "aux_sym__yaml_content_token1 \<equiv> 4"
abbreviation (input) aux_sym_yaml_line_token1 :: TSSymbol where "aux_sym_yaml_line_token1 \<equiv> 5"
abbreviation (input) anon_sym_COLON :: TSSymbol where "anon_sym_COLON \<equiv> 6"
abbreviation (input) aux_sym_yaml_line_token2 :: TSSymbol where "aux_sym_yaml_line_token2 \<equiv> 7"
abbreviation (input) anon_sym_LBRACE_LBRACE_POUND :: TSSymbol where "anon_sym_LBRACE_LBRACE_POUND \<equiv> 8"
abbreviation (input) anon_sym_RBRACE_RBRACE :: TSSymbol where "anon_sym_RBRACE_RBRACE \<equiv> 9"
abbreviation (input) anon_sym_LBRACE_LBRACE_SLASH :: TSSymbol where "anon_sym_LBRACE_LBRACE_SLASH \<equiv> 10"
abbreviation (input) anon_sym_LBRACE_LBRACE :: TSSymbol where "anon_sym_LBRACE_LBRACE \<equiv> 11"
abbreviation (input) anon_sym_GT :: TSSymbol where "anon_sym_GT \<equiv> 12"
abbreviation (input) anon_sym_else :: TSSymbol where "anon_sym_else \<equiv> 13"
abbreviation (input) anon_sym_LBRACE_LBRACE_BANG :: TSSymbol where "anon_sym_LBRACE_LBRACE_BANG \<equiv> 14"
abbreviation (input) aux_sym_handlebars_comment_token1 :: TSSymbol where "aux_sym_handlebars_comment_token1 \<equiv> 15"
abbreviation (input) anon_sym_LBRACE_LBRACE_BANG_DASH_DASH :: TSSymbol where "anon_sym_LBRACE_LBRACE_BANG_DASH_DASH \<equiv> 16"
abbreviation (input) aux_sym_handlebars_comment_token2 :: TSSymbol where "aux_sym_handlebars_comment_token2 \<equiv> 17"
abbreviation (input) anon_sym_DASH_DASH_RBRACE_RBRACE :: TSSymbol where "anon_sym_DASH_DASH_RBRACE_RBRACE \<equiv> 18"
abbreviation (input) anon_sym_EQ :: TSSymbol where "anon_sym_EQ \<equiv> 19"
abbreviation (input) aux_sym_variable_reference_token1 :: TSSymbol where "aux_sym_variable_reference_token1 \<equiv> 20"
abbreviation (input) sym_path :: TSSymbol where "sym_path \<equiv> 21"
abbreviation (input) anon_sym_DQUOTE :: TSSymbol where "anon_sym_DQUOTE \<equiv> 22"
abbreviation (input) aux_sym_string_literal_token1 :: TSSymbol where "aux_sym_string_literal_token1 \<equiv> 23"
abbreviation (input) anon_sym_SQUOTE :: TSSymbol where "anon_sym_SQUOTE \<equiv> 24"
abbreviation (input) aux_sym_string_literal_token2 :: TSSymbol where "aux_sym_string_literal_token2 \<equiv> 25"
abbreviation (input) sym_number :: TSSymbol where "sym_number \<equiv> 26"
abbreviation (input) anon_sym_true :: TSSymbol where "anon_sym_true \<equiv> 27"
abbreviation (input) anon_sym_false :: TSSymbol where "anon_sym_false \<equiv> 28"
abbreviation (input) anon_sym_LT_LT_LTdotprompt_COLON :: TSSymbol where "anon_sym_LT_LT_LTdotprompt_COLON \<equiv> 29"
abbreviation (input) aux_sym_dotprompt_marker_token1 :: TSSymbol where "aux_sym_dotprompt_marker_token1 \<equiv> 30"
abbreviation (input) anon_sym_GT_GT_GT :: TSSymbol where "anon_sym_GT_GT_GT \<equiv> 31"
abbreviation (input) sym_text :: TSSymbol where "sym_text \<equiv> 32"
abbreviation (input) sym_document :: TSSymbol where "sym_document \<equiv> 33"
abbreviation (input) sym_license_header :: TSSymbol where "sym_license_header \<equiv> 34"
abbreviation (input) sym_frontmatter :: TSSymbol where "sym_frontmatter \<equiv> 35"
abbreviation (input) sym__yaml_content :: TSSymbol where "sym__yaml_content \<equiv> 36"
abbreviation (input) sym_yaml_line :: TSSymbol where "sym_yaml_line \<equiv> 37"
abbreviation (input) sym_template_body :: TSSymbol where "sym_template_body \<equiv> 38"
abbreviation (input) sym__content :: TSSymbol where "sym__content \<equiv> 39"
abbreviation (input) sym_handlebars_block :: TSSymbol where "sym_handlebars_block \<equiv> 40"
abbreviation (input) sym_block_expression :: TSSymbol where "sym_block_expression \<equiv> 41"
abbreviation (input) sym_close_block :: TSSymbol where "sym_close_block \<equiv> 42"
abbreviation (input) sym_handlebars_expression :: TSSymbol where "sym_handlebars_expression \<equiv> 43"
abbreviation (input) sym_expression_content :: TSSymbol where "sym_expression_content \<equiv> 44"
abbreviation (input) sym_handlebars_comment :: TSSymbol where "sym_handlebars_comment \<equiv> 45"
abbreviation (input) sym_argument :: TSSymbol where "sym_argument \<equiv> 46"
abbreviation (input) sym_hash_param :: TSSymbol where "sym_hash_param \<equiv> 47"
abbreviation (input) sym_variable_reference :: TSSymbol where "sym_variable_reference \<equiv> 48"
abbreviation (input) sym_string_literal :: TSSymbol where "sym_string_literal \<equiv> 49"
abbreviation (input) sym_boolean :: TSSymbol where "sym_boolean \<equiv> 50"
abbreviation (input) sym_dotprompt_marker :: TSSymbol where "sym_dotprompt_marker \<equiv> 51"
abbreviation (input) aux_sym_license_header_repeat1 :: TSSymbol where "aux_sym_license_header_repeat1 \<equiv> 52"
abbreviation (input) aux_sym_frontmatter_repeat1 :: TSSymbol where "aux_sym_frontmatter_repeat1 \<equiv> 53"
abbreviation (input) aux_sym_template_body_repeat1 :: TSSymbol where "aux_sym_template_body_repeat1 \<equiv> 54"
abbreviation (input) aux_sym_block_expression_repeat1 :: TSSymbol where "aux_sym_block_expression_repeat1 \<equiv> 55"
abbreviation (input) alias_sym_block_name :: TSSymbol where "alias_sym_block_name \<equiv> 56"
abbreviation (input) alias_sym_helper_name :: TSSymbol where "alias_sym_helper_name \<equiv> 57"
abbreviation (input) alias_sym_key :: TSSymbol where "alias_sym_key \<equiv> 58"
abbreviation (input) alias_sym_partial_reference :: TSSymbol where "alias_sym_partial_reference \<equiv> 59"
abbreviation (input) alias_sym_yaml_content :: TSSymbol where "alias_sym_yaml_content \<equiv> 60"

subsection \<open>The lexer automaton: one case of the switch of ts_lex per state\<close>

text \<open>
  Each \<open>case\<close> of the switch first accepts a token (\<open>ACCEPT_TOKEN\<close>) or not, and then
  tests the lookahead from top to bottom; the first test that holds decides the move
  (\<open>ADVANCE\<close> or \<open>SKIP\<close> to a next state), and \<open>END_STATE\<close> is reached when none holds.
  \<open>ADVANCE_MAP\<close> is a run of equality tests in the order of its pairs. The
  \<open>default\<close> label returns \<open>false\<close>. Printable characters are written
  \<open>ch CHR ''c''\<close>; the others are their codes: tab 9, line feed 10, form feed 12,
  carriage return 13, double quote 34, single quote 39, backslash 92.
\<close>

datatype lex_action = ADVANCE nat | SKIP nat | END_STATE | RETURN_FALSE

abbreviation (input) NO_TOKEN :: "TSSymbol option" where "NO_TOKEN \<equiv> None"
abbreviation (input) ACCEPT_TOKEN :: "TSSymbol \<Rightarrow> TSSymbol option" where
  "ACCEPT_TOKEN symbol_value \<equiv> Some symbol_value"
abbreviation (input) ch :: "char \<Rightarrow> int" where "ch c \<equiv> of_char c"

definition ts_lex_case :: "nat \<Rightarrow> bool \<Rightarrow> int \<Rightarrow> TSSymbol option \<times> lex_action" where
"ts_lex_case state eof lookahead =
 (if state = 0 then
     (NO_TOKEN,
      if eof then ADVANCE 40
      else if lookahead = 34 then ADVANCE 78
      else if lookahead = ch CHR ''#'' then ADVANCE 41
      else if lookahead = 39 then ADVANCE 81
      else if lookahead = ch CHR ''-'' then ADVANCE 6
      else if lookahead = ch CHR '':'' then ADVANCE 47
      else if lookahead = ch CHR ''<'' then ADVANCE 13
      else if lookahead = ch CHR ''='' then ADVANCE 65
      else if lookahead = ch CHR ''>'' then ADVANCE 56
      else if lookahead = ch CHR ''@'' then ADVANCE 33
      else if lookahead = ch CHR ''e'' then ADVANCE 71
      else if lookahead = ch CHR ''f'' then ADVANCE 67
      else if lookahead = ch CHR ''t'' then ADVANCE 73
      else if lookahead = ch CHR ''{'' then ADVANCE 26
      else if lookahead = ch CHR ''}'' then ADVANCE 27
      else if (9 \<le> lookahead \<and> lookahead \<le> 13) \<or> lookahead = ch CHR '' '' then SKIP 0
      else if (ch CHR ''0'' \<le> lookahead \<and> lookahead \<le> ch CHR ''9'') then ADVANCE 84
      else if (ch CHR ''A'' \<le> lookahead \<and> lookahead \<le> ch CHR ''Z'') \<or> lookahead = ch CHR ''_'' \<or> (ch CHR ''a'' \<le> lookahead \<and> lookahead \<le> ch CHR ''z'') then ADVANCE 77
      else END_STATE)
  else if state = 1 then
     (NO_TOKEN,
      if lookahead = 10 then ADVANCE 42
      else if lookahead = 13 then ADVANCE 48
      else if (9 \<le> lookahead \<and> lookahead \<le> 12) \<or> lookahead = ch CHR '' '' then ADVANCE 48
      else if lookahead \<noteq> 0 then ADVANCE 49
      else END_STATE)
  else if state = 2 then
     (NO_TOKEN,
      if lookahead = 10 then ADVANCE 43
      else if lookahead = 13 then ADVANCE 2
      else if (9 \<le> lookahead \<and> lookahead \<le> 12) \<or> lookahead = ch CHR '' '' then SKIP 2
      else END_STATE)
  else if state = 3 then
     (NO_TOKEN,
      if lookahead = 34 then ADVANCE 78
      else if lookahead = 39 then ADVANCE 81
      else if lookahead = ch CHR ''-'' then ADVANCE 31
      else if lookahead = ch CHR ''='' then ADVANCE 65
      else if lookahead = ch CHR ''>'' then ADVANCE 14
      else if lookahead = ch CHR ''@'' then ADVANCE 33
      else if lookahead = ch CHR ''f'' then ADVANCE 67
      else if lookahead = ch CHR ''t'' then ADVANCE 73
      else if lookahead = ch CHR ''}'' then ADVANCE 27
      else if (9 \<le> lookahead \<and> lookahead \<le> 13) \<or> lookahead = ch CHR '' '' then SKIP 3
      else if (ch CHR ''0'' \<le> lookahead \<and> lookahead \<le> ch CHR ''9'') then ADVANCE 84
      else if (ch CHR ''A'' \<le> lookahead \<and> lookahead \<le> ch CHR ''Z'') \<or> lookahead = ch CHR ''_'' \<or> (ch CHR ''a'' \<le> lookahead \<and> lookahead \<le> ch CHR ''z'') then ADVANCE 77
      else END_STATE)
  else if state = 4 then
     (NO_TOKEN,
      if lookahead = ch CHR ''#'' then ADVANCE 41
      else if lookahead = ch CHR ''-'' then ADVANCE 10
      else if (9 \<le> lookahead \<and> lookahead \<le> 13) \<or> lookahead = ch CHR '' '' then ADVANCE 45
      else if (ch CHR ''A'' \<le> lookahead \<and> lookahead \<le> ch CHR ''Z'') \<or> lookahead = ch CHR ''_'' \<or> (ch CHR ''a'' \<le> lookahead \<and> lookahead \<le> ch CHR ''z'') then ADVANCE 46
      else END_STATE)
  else if state = 5 then
     (NO_TOKEN,
      if lookahead = ch CHR ''#'' then ADVANCE 92
      else if lookahead = ch CHR ''<'' then ADVANCE 99
      else if lookahead = ch CHR ''{'' then ADVANCE 100
      else if (9 \<le> lookahead \<and> lookahead \<le> 13) \<or> lookahead = ch CHR '' '' then ADVANCE 96
      else if lookahead \<noteq> 0 then ADVANCE 102
      else END_STATE)
  else if state = 6 then
     (NO_TOKEN,
      if lookahead = ch CHR ''-'' then ADVANCE 8
      else if (ch CHR ''0'' \<le> lookahead \<and> lookahead \<le> ch CHR ''9'') then ADVANCE 84
      else END_STATE)
  else if state = 7 then
     (NO_TOKEN,
      if lookahead = ch CHR ''-'' then ADVANCE 44
      else END_STATE)
  else if state = 8 then
     (NO_TOKEN,
      if lookahead = ch CHR ''-'' then ADVANCE 44
      else if lookahead = ch CHR ''}'' then ADVANCE 28
      else END_STATE)
  else if state = 9 then
     (NO_TOKEN,
      if lookahead = ch CHR ''-'' then ADVANCE 61
      else END_STATE)
  else if state = 10 then
     (NO_TOKEN,
      if lookahead = ch CHR ''-'' then ADVANCE 7
      else END_STATE)
  else if state = 11 then
     (NO_TOKEN,
      if lookahead = ch CHR '':'' then ADVANCE 88
      else END_STATE)
  else if state = 12 then
     (NO_TOKEN,
      if lookahead = ch CHR ''<'' then ADVANCE 17
      else END_STATE)
  else if state = 13 then
     (NO_TOKEN,
      if lookahead = ch CHR ''<'' then ADVANCE 12
      else END_STATE)
  else if state = 14 then
     (NO_TOKEN,
      if lookahead = ch CHR ''>'' then ADVANCE 15
      else END_STATE)
  else if state = 15 then
     (NO_TOKEN,
      if lookahead = ch CHR ''>'' then ADVANCE 91
      else END_STATE)
  else if state = 16 then
     (NO_TOKEN,
      if lookahead = ch CHR ''>'' then ADVANCE 55
      else if lookahead = ch CHR ''@'' then ADVANCE 33
      else if lookahead = ch CHR ''e'' then ADVANCE 71
      else if (9 \<le> lookahead \<and> lookahead \<le> 13) \<or> lookahead = ch CHR '' '' then SKIP 16
      else if (ch CHR ''A'' \<le> lookahead \<and> lookahead \<le> ch CHR ''Z'') \<or> lookahead = ch CHR ''_'' \<or> (ch CHR ''a'' \<le> lookahead \<and> lookahead \<le> ch CHR ''z'') then ADVANCE 77
      else END_STATE)
  else if state = 17 then
     (NO_TOKEN,
      if lookahead = ch CHR ''d'' then ADVANCE 19
      else END_STATE)
  else if state = 18 then
     (NO_TOKEN,
      if lookahead = ch CHR ''m'' then ADVANCE 22
      else END_STATE)
  else if state = 19 then
     (NO_TOKEN,
      if lookahead = ch CHR ''o'' then ADVANCE 24
      else END_STATE)
  else if state = 20 then
     (NO_TOKEN,
      if lookahead = ch CHR ''o'' then ADVANCE 18
      else END_STATE)
  else if state = 21 then
     (NO_TOKEN,
      if lookahead = ch CHR ''p'' then ADVANCE 23
      else END_STATE)
  else if state = 22 then
     (NO_TOKEN,
      if lookahead = ch CHR ''p'' then ADVANCE 25
      else END_STATE)
  else if state = 23 then
     (NO_TOKEN,
      if lookahead = ch CHR ''r'' then ADVANCE 20
      else END_STATE)
  else if state = 24 then
     (NO_TOKEN,
      if lookahead = ch CHR ''t'' then ADVANCE 21
      else END_STATE)
  else if state = 25 then
     (NO_TOKEN,
      if lookahead = ch CHR ''t'' then ADVANCE 11
      else END_STATE)
  else if state = 26 then
     (NO_TOKEN,
      if lookahead = ch CHR ''{'' then ADVANCE 54
      else END_STATE)
  else if state = 27 then
     (NO_TOKEN,
      if lookahead = ch CHR ''}'' then ADVANCE 51
      else END_STATE)
  else if state = 28 then
     (NO_TOKEN,
      if lookahead = ch CHR ''}'' then ADVANCE 64
      else END_STATE)
  else if state = 29 then
     (NO_TOKEN,
      if (9 \<le> lookahead \<and> lookahead \<le> 13) \<or> lookahead = ch CHR '' '' then SKIP 29
      else if (ch CHR ''A'' \<le> lookahead \<and> lookahead \<le> ch CHR ''Z'') \<or> lookahead = ch CHR ''_'' \<or> (ch CHR ''a'' \<le> lookahead \<and> lookahead \<le> ch CHR ''z'') then ADVANCE 77
      else END_STATE)
  else if state = 30 then
     (NO_TOKEN,
      if (9 \<le> lookahead \<and> lookahead \<le> 13) \<or> lookahead = ch CHR '' '' then ADVANCE 89
      else if lookahead \<noteq> 0 \<and> lookahead \<noteq> ch CHR ''>'' then ADVANCE 90
      else END_STATE)
  else if state = 31 then
     (NO_TOKEN,
      if (ch CHR ''0'' \<le> lookahead \<and> lookahead \<le> ch CHR ''9'') then ADVANCE 84
      else END_STATE)
  else if state = 32 then
     (NO_TOKEN,
      if (ch CHR ''0'' \<le> lookahead \<and> lookahead \<le> ch CHR ''9'') then ADVANCE 85
      else END_STATE)
  else if state = 33 then
     (NO_TOKEN,
      if (ch CHR ''A'' \<le> lookahead \<and> lookahead \<le> ch CHR ''Z'') \<or> lookahead = ch CHR ''_'' \<or> (ch CHR ''a'' \<le> lookahead \<and> lookahead \<le> ch CHR ''z'') then ADVANCE 66
      else END_STATE)
  else if state = 34 then
     (NO_TOKEN,
      if lookahead \<noteq> 0 \<and> lookahead \<noteq> 10 then ADVANCE 83
      else END_STATE)
  else if state = 35 then
     (NO_TOKEN,
      if lookahead \<noteq> 0 \<and> lookahead \<noteq> 10 then ADVANCE 80
      else END_STATE)
  else if state = 36 then
     (NO_TOKEN,
      if lookahead \<noteq> 0 \<and> lookahead \<noteq> ch CHR ''}'' then ADVANCE 60
      else END_STATE)
  else if state = 37 then
     (NO_TOKEN,
      if eof then ADVANCE 40
      else if lookahead = ch CHR ''#'' then ADVANCE 41
      else if lookahead = ch CHR ''-'' then ADVANCE 98
      else if lookahead = ch CHR ''<'' then ADVANCE 99
      else if lookahead = ch CHR ''{'' then ADVANCE 101
      else if (9 \<le> lookahead \<and> lookahead \<le> 13) \<or> lookahead = ch CHR '' '' then ADVANCE 93
      else if lookahead \<noteq> 0 then ADVANCE 102
      else END_STATE)
  else if state = 38 then
     (NO_TOKEN,
      if eof then ADVANCE 40
      else if lookahead = ch CHR ''#'' then ADVANCE 92
      else if lookahead = ch CHR ''-'' then ADVANCE 98
      else if lookahead = ch CHR ''<'' then ADVANCE 99
      else if lookahead = ch CHR ''{'' then ADVANCE 101
      else if (9 \<le> lookahead \<and> lookahead \<le> 13) \<or> lookahead = ch CHR '' '' then ADVANCE 94
      else if lookahead \<noteq> 0 then ADVANCE 102
      else END_STATE)
  else if state = 39 then
     (NO_TOKEN,
      if eof then ADVANCE 40
      else if lookahead = ch CHR ''#'' then ADVANCE 92
      else if lookahead = ch CHR ''<'' then ADVANCE 99
      else if lookahead = ch CHR ''{'' then ADVANCE 101
      else if (9 \<le> lookahead \<and> lookahead \<le> 13) \<or> lookahead = ch CHR '' '' then ADVANCE 95
      else if lookahead \<noteq> 0 then ADVANCE 102
      else END_STATE)
  else if state = 40 then
     (ACCEPT_TOKEN ts_builtin_sym_end,
      END_STATE)
  else if state = 41 then
     (ACCEPT_TOKEN sym_header_comment,
      if lookahead \<noteq> 0 \<and> lookahead \<noteq> 10 then ADVANCE 41
      else END_STATE)
  else if state = 42 then
     (ACCEPT_TOKEN aux_sym_frontmatter_token1,
      if lookahead = 10 then ADVANCE 42
      else if lookahead = 13 then ADVANCE 48
      else if (9 \<le> lookahead \<and> lookahead \<le> 12) \<or> lookahead = ch CHR '' '' then ADVANCE 48
      else END_STATE)
  else if state = 43 then
     (ACCEPT_TOKEN aux_sym_frontmatter_token1,
      if lookahead = 10 then ADVANCE 43
      else if lookahead = 13 then ADVANCE 2
      else END_STATE)
  else if state = 44 then
     (ACCEPT_TOKEN sym_frontmatter_delimiter,
      END_STATE)
  else if state = 45 then
     (ACCEPT_TOKEN aux_sym__yaml_content_token1,
      if lookahead = ch CHR ''-'' then ADVANCE 10
      else if (9 \<le> lookahead \<and> lookahead \<le> 13) \<or> lookahead = ch CHR '' '' then ADVANCE 45
      else END_STATE)
  else if state = 46 then
     (ACCEPT_TOKEN aux_sym_yaml_line_token1,
      if lookahead = ch CHR ''-'' \<or> (ch CHR ''0'' \<le> lookahead \<and> lookahead \<le> ch CHR ''9'') \<or> (ch CHR ''A'' \<le> lookahead \<and> lookahead \<le> ch CHR ''Z'') \<or> lookahead = ch CHR ''_'' \<or> (ch CHR ''a'' \<le> lookahead \<and> lookahead \<le> ch CHR ''z'') then ADVANCE 46
      else END_STATE)
  else if state = 47 then
     (ACCEPT_TOKEN anon_sym_COLON,
      END_STATE)
  else if state = 48 then
     (ACCEPT_TOKEN aux_sym_yaml_line_token2,
      if lookahead = 10 then ADVANCE 42
      else if lookahead = 13 then ADVANCE 48
      else if (9 \<le> lookahead \<and> lookahead \<le> 12) \<or> lookahead = ch CHR '' '' then ADVANCE 48
      else if lookahead \<noteq> 0 then ADVANCE 49
      else END_STATE)
  else if state = 49 then
     (ACCEPT_TOKEN aux_sym_yaml_line_token2,
      if lookahead \<noteq> 0 \<and> lookahead \<noteq> 10 then ADVANCE 49
      else END_STATE)
  else if state = 50 then
     (ACCEPT_TOKEN anon_sym_LBRACE_LBRACE_POUND,
      END_STATE)
  else if state = 51 then
     (ACCEPT_TOKEN anon_sym_RBRACE_RBRACE,
      END_STATE)
  else if state = 52 then
     (ACCEPT_TOKEN anon_sym_LBRACE_LBRACE_SLASH,
      END_STATE)
  else if state = 53 then
     (ACCEPT_TOKEN anon_sym_LBRACE_LBRACE,
      if lookahead = ch CHR ''!'' then ADVANCE 58
      else if lookahead = ch CHR ''#'' then ADVANCE 50
      else END_STATE)
  else if state = 54 then
     (ACCEPT_TOKEN anon_sym_LBRACE_LBRACE,
      if lookahead = ch CHR ''!'' then ADVANCE 58
      else if lookahead = ch CHR ''#'' then ADVANCE 50
      else if lookahead = ch CHR ''/'' then ADVANCE 52
      else END_STATE)
  else if state = 55 then
     (ACCEPT_TOKEN anon_sym_GT,
      END_STATE)
  else if state = 56 then
     (ACCEPT_TOKEN anon_sym_GT,
      if lookahead = ch CHR ''>'' then ADVANCE 15
      else END_STATE)
  else if state = 57 then
     (ACCEPT_TOKEN anon_sym_else,
      if lookahead = ch CHR ''.'' \<or> (ch CHR ''0'' \<le> lookahead \<and> lookahead \<le> ch CHR ''9'') \<or> (ch CHR ''A'' \<le> lookahead \<and> lookahead \<le> ch CHR ''Z'') \<or> lookahead = ch CHR ''_'' \<or> (ch CHR ''a'' \<le> lookahead \<and> lookahead \<le> ch CHR ''z'') then ADVANCE 77
      else END_STATE)
  else if state = 58 then
     (ACCEPT_TOKEN anon_sym_LBRACE_LBRACE_BANG,
      if lookahead = ch CHR ''-'' then ADVANCE 9
      else END_STATE)
  else if state = 59 then
     (ACCEPT_TOKEN aux_sym_handlebars_comment_token1,
      if lookahead = ch CHR ''}'' then ADVANCE 36
      else if (9 \<le> lookahead \<and> lookahead \<le> 13) \<or> lookahead = ch CHR '' '' then ADVANCE 59
      else if lookahead \<noteq> 0 then ADVANCE 60
      else END_STATE)
  else if state = 60 then
     (ACCEPT_TOKEN aux_sym_handlebars_comment_token1,
      if lookahead = ch CHR ''}'' then ADVANCE 36
      else if lookahead \<noteq> 0 then ADVANCE 60
      else END_STATE)
  else if state = 61 then
     (ACCEPT_TOKEN anon_sym_LBRACE_LBRACE_BANG_DASH_DASH,
      END_STATE)
  else if state = 62 then
     (ACCEPT_TOKEN aux_sym_handlebars_comment_token2,
      if lookahead = ch CHR ''-'' then ADVANCE 63
      else if (9 \<le> lookahead \<and> lookahead \<le> 13) \<or> lookahead = ch CHR '' '' then ADVANCE 62
      else if lookahead \<noteq> 0 then ADVANCE 63
      else END_STATE)
  else if state = 63 then
     (ACCEPT_TOKEN aux_sym_handlebars_comment_token2,
      if lookahead = ch CHR ''-'' then ADVANCE 63
      else if lookahead \<noteq> 0 then ADVANCE 63
      else END_STATE)
  else if state = 64 then
     (ACCEPT_TOKEN anon_sym_DASH_DASH_RBRACE_RBRACE,
      END_STATE)
  else if state = 65 then
     (ACCEPT_TOKEN anon_sym_EQ,
      END_STATE)
  else if state = 66 then
     (ACCEPT_TOKEN aux_sym_variable_reference_token1,
      if (ch CHR ''0'' \<le> lookahead \<and> lookahead \<le> ch CHR ''9'') \<or> (ch CHR ''A'' \<le> lookahead \<and> lookahead \<le> ch CHR ''Z'') \<or> lookahead = ch CHR ''_'' \<or> (ch CHR ''a'' \<le> lookahead \<and> lookahead \<le> ch CHR ''z'') then ADVANCE 66
      else END_STATE)
  else if state = 67 then
     (ACCEPT_TOKEN sym_path,
      if lookahead = ch CHR ''a'' then ADVANCE 72
      else if lookahead = ch CHR ''.'' \<or> (ch CHR ''0'' \<le> lookahead \<and> lookahead \<le> ch CHR ''9'') \<or> (ch CHR ''A'' \<le> lookahead \<and> lookahead \<le> ch CHR ''Z'') \<or> lookahead = ch CHR ''_'' \<or> (ch CHR ''b'' \<le> lookahead \<and> lookahead \<le> ch CHR ''z'') then ADVANCE 77
      else END_STATE)
  else if state = 68 then
     (ACCEPT_TOKEN sym_path,
      if lookahead = ch CHR ''e'' then ADVANCE 57
      else if lookahead = ch CHR ''.'' \<or> (ch CHR ''0'' \<le> lookahead \<and> lookahead \<le> ch CHR ''9'') \<or> (ch CHR ''A'' \<le> lookahead \<and> lookahead \<le> ch CHR ''Z'') \<or> lookahead = ch CHR ''_'' \<or> (ch CHR ''a'' \<le> lookahead \<and> lookahead \<le> ch CHR ''z'') then ADVANCE 77
      else END_STATE)
  else if state = 69 then
     (ACCEPT_TOKEN sym_path,
      if lookahead = ch CHR ''e'' then ADVANCE 86
      else if lookahead = ch CHR ''.'' \<or> (ch CHR ''0'' \<le> lookahead \<and> lookahead \<le> ch CHR ''9'') \<or> (ch CHR ''A'' \<le> lookahead \<and> lookahead \<le> ch CHR ''Z'') \<or> lookahead = ch CHR ''_'' \<or> (ch CHR ''a'' \<le> lookahead \<and> lookahead \<le> ch CHR ''z'') then ADVANCE 77
      else END_STATE)
  else if state = 70 then
     (ACCEPT_TOKEN sym_path,
      if lookahead = ch CHR ''e'' then ADVANCE 87
      else if lookahead = ch CHR ''.'' \<or> (ch CHR ''0'' \<le> lookahead \<and> lookahead \<le> ch CHR ''9'') \<or> (ch CHR ''A'' \<le> lookahead \<and> lookahead \<le> ch CHR ''Z'') \<or> lookahead = ch CHR ''_'' \<or> (ch CHR ''a'' \<le> lookahead \<and> lookahead \<le> ch CHR ''z'') then ADVANCE 77
      else END_STATE)
  else if state = 71 then
     (ACCEPT_TOKEN sym_path,
      if lookahead = ch CHR ''l'' then ADVANCE 74
      else if lookahead = ch CHR ''.'' \<or> (ch CHR ''0'' \<le> lookahead \<and> lookahead \<le> ch CHR ''9'') \<or> (ch CHR ''A'' \<le> lookahead \<and> lookahead \<le> ch CHR ''Z'') \<or> lookahead = ch CHR ''_'' \<or> (ch CHR ''a'' \<le> lookahead \<and> lookahead \<le> ch CHR ''z'') then ADVANCE 77
      else END_STATE)
  else if state = 72 then
     (ACCEPT_TOKEN sym_path,
      if lookahead = ch CHR ''l'' then ADVANCE 75
      else if lookahead = ch CHR ''.'' \<or> (ch CHR ''0'' \<le> lookahead \<and> lookahead \<le> ch CHR ''9'') \<or> (ch CHR ''A'' \<le> lookahead \<and> lookahead \<le> ch CHR ''Z'') \<or> lookahead = ch CHR ''_'' \<or> (ch CHR ''a'' \<le> lookahead \<and> lookahead \<le> ch CHR ''z'') then ADVANCE 77
      else END_STATE)
  else if state = 73 then
     (ACCEPT_TOKEN sym_path,
      if lookahead = ch CHR ''r'' then ADVANCE 76
      else if lookahead = ch CHR ''.'' \<or> (ch CHR ''0'' \<le> lookahead \<and> lookahead \<le> ch CHR ''9'') \<or> (ch CHR ''A'' \<le> lookahead \<and> lookahead \<le> ch CHR ''Z'') \<or> lookahead = ch CHR ''_'' \<or> (ch CHR ''a'' \<le> lookahead \<and> lookahead \<le> ch CHR ''z'') then ADVANCE 77
      else END_STATE)
  else if state = 74 then
     (ACCEPT_TOKEN sym_path,
      if lookahead = ch CHR ''s'' then ADVANCE 68
      else if lookahead = ch CHR ''.'' \<or> (ch CHR ''0'' \<le> lookahead \<and> lookahead \<le> ch CHR ''9'') \<or> (ch CHR ''A'' \<le> lookahead \<and> lookahead \<le> ch CHR ''Z'') \<or> lookahead = ch CHR ''_'' \<or> (ch CHR ''a'' \<le> lookahead \<and> lookahead \<le> ch CHR ''z'') then ADVANCE 77
      else END_STATE)
  else if state = 75 then
     (ACCEPT_TOKEN sym_path,
      if lookahead = ch CHR ''s'' then ADVANCE 70
      else if lookahead = ch CHR ''.'' \<or> (ch CHR ''0'' \<le> lookahead \<and> lookahead \<le> ch CHR ''9'') \<or> (ch CHR ''A'' \<le> lookahead \<and> lookahead \<le> ch CHR ''Z'') \<or> lookahead = ch CHR ''_'' \<or> (ch CHR ''a'' \<le> lookahead \<and> lookahead \<le> ch CHR ''z'') then ADVANCE 77
      else END_STATE)
  else if state = 76 then
     (ACCEPT_TOKEN sym_path,
      if lookahead = ch CHR ''u'' then ADVANCE 69
      else if lookahead = ch CHR ''.'' \<or> (ch CHR ''0'' \<le> lookahead \<and> lookahead \<le> ch CHR ''9'') \<or> (ch CHR ''A'' \<le> lookahead \<and> lookahead \<le> ch CHR ''Z'') \<or> lookahead = ch CHR ''_'' \<or> (ch CHR ''a'' \<le> lookahead \<and> lookahead \<le> ch CHR ''z'') then ADVANCE 77
      else END_STATE)
  else if state = 77 then
     (ACCEPT_TOKEN sym_path,
      if lookahead = ch CHR ''.'' \<or> (ch CHR ''0'' \<le> lookahead \<and> lookahead \<le> ch CHR ''9'') \<or> (ch CHR ''A'' \<le> lookahead \<and> lookahead \<le> ch CHR ''Z'') \<or> lookahead = ch CHR ''_'' \<or> (ch CHR ''a'' \<le> lookahead \<and> lookahead \<le> ch CHR ''z'') then ADVANCE 77
      else END_STATE)
  else if state = 78 then
     (ACCEPT_TOKEN anon_sym_DQUOTE,
      END_STATE)
  else if state = 79 then
     (ACCEPT_TOKEN aux_sym_string_literal_token1,
      if lookahead = 92 then ADVANCE 35
      else if (9 \<le> lookahead \<and> lookahead \<le> 13) \<or> lookahead = ch CHR '' '' then ADVANCE 79
      else if lookahead \<noteq> 0 \<and> lookahead \<noteq> 34 then ADVANCE 80
      else END_STATE)
  else if state = 80 then
     (ACCEPT_TOKEN aux_sym_string_literal_token1,
      if lookahead = 92 then ADVANCE 35
      else if lookahead \<noteq> 0 \<and> lookahead \<noteq> 34 then ADVANCE 80
      else END_STATE)
  else if state = 81 then
     (ACCEPT_TOKEN anon_sym_SQUOTE,
      END_STATE)
  else if state = 82 then
     (ACCEPT_TOKEN aux_sym_string_literal_token2,
      if lookahead = 92 then ADVANCE 34
      else if (9 \<le> lookahead \<and> lookahead \<le> 13) \<or> lookahead = ch CHR '' '' then ADVANCE 82
      else if lookahead \<noteq> 0 \<and> lookahead \<noteq> 39 then ADVANCE 83
      else END_STATE)
  else if state = 83 then
     (ACCEPT_TOKEN aux_sym_string_literal_token2,
      if lookahead = 92 then ADVANCE 34
      else if lookahead \<noteq> 0 \<and> lookahead \<noteq> 39 then ADVANCE 83
      else END_STATE)
  else if state = 84 then
     (ACCEPT_TOKEN sym_number,
      if lookahead = ch CHR ''.'' then ADVANCE 32
      else if (ch CHR ''0'' \<le> lookahead \<and> lookahead \<le> ch CHR ''9'') then ADVANCE 84
      else END_STATE)
  else if state = 85 then
     (ACCEPT_TOKEN sym_number,
      if (ch CHR ''0'' \<le> lookahead \<and> lookahead \<le> ch CHR ''9'') then ADVANCE 85
      else END_STATE)
  else if state = 86 then
     (ACCEPT_TOKEN anon_sym_true,
      if lookahead = ch CHR ''.'' \<or> (ch CHR ''0'' \<le> lookahead \<and> lookahead \<le> ch CHR ''9'') \<or> (ch CHR ''A'' \<le> lookahead \<and> lookahead \<le> ch CHR ''Z'') \<or> lookahead = ch CHR ''_'' \<or> (ch CHR ''a'' \<le> lookahead \<and> lookahead \<le> ch CHR ''z'') then ADVANCE 77
      else END_STATE)
  else if state = 87 then
     (ACCEPT_TOKEN anon_sym_false,
      if lookahead = ch CHR ''.'' \<or> (ch CHR ''0'' \<le> lookahead \<and> lookahead \<le> ch CHR ''9'') \<or> (ch CHR ''A'' \<le> lookahead \<and> lookahead \<le> ch CHR ''Z'') \<or> lookahead = ch CHR ''_'' \<or> (ch CHR ''a'' \<le> lookahead \<and> lookahead \<le> ch CHR ''z'') then ADVANCE 77
      else END_STATE)
  else if state = 88 then
     (ACCEPT_TOKEN anon_sym_LT_LT_LTdotprompt_COLON,
      END_STATE)
  else if state = 89 then
     (ACCEPT_TOKEN aux_sym_dotprompt_marker_token1,
      if (9 \<le> lookahead \<and> lookahead \<le> 13) \<or> lookahead = ch CHR '' '' then ADVANCE 89
      else if lookahead \<noteq> 0 \<and> lookahead \<noteq> ch CHR ''>'' then ADVANCE 90
      else END_STATE)
  else if state = 90 then
     (ACCEPT_TOKEN aux_sym_dotprompt_marker_token1,
      if lookahead \<noteq> 0 \<and> lookahead \<noteq> ch CHR ''>'' then ADVANCE 90
      else END_STATE)
  else if state = 91 then
     (ACCEPT_TOKEN anon_sym_GT_GT_GT,
      END_STATE)
  else if state = 92 then
     (ACCEPT_TOKEN sym_text,
      END_STATE)
  else if state = 93 then
     (ACCEPT_TOKEN sym_text,
      if lookahead = ch CHR ''#'' then ADVANCE 41
      else if lookahead = ch CHR ''-'' then ADVANCE 98
      else if lookahead = ch CHR ''<'' then ADVANCE 99
      else if lookahead = ch CHR ''{'' then ADVANCE 101
      else if (9 \<le> lookahead \<and> lookahead \<le> 13) \<or> lookahead = ch CHR '' '' then ADVANCE 93
      else if lookahead \<noteq> 0 then ADVANCE 102
      else END_STATE)
  else if state = 94 then
     (ACCEPT_TOKEN sym_text,
      if lookahead = ch CHR ''#'' then ADVANCE 92
      else if lookahead = ch CHR ''-'' then ADVANCE 98
      else if lookahead = ch CHR ''<'' then ADVANCE 99
      else if lookahead = ch CHR ''{'' then ADVANCE 101
      else if (9 \<le> lookahead \<and> lookahead \<le> 13) \<or> lookahead = ch CHR '' '' then ADVANCE 94
      else if lookahead \<noteq> 0 then ADVANCE 102
      else END_STATE)
  else if state = 95 then
     (ACCEPT_TOKEN sym_text,
      if lookahead = ch CHR ''#'' then ADVANCE 92
      else if lookahead = ch CHR ''<'' then ADVANCE 99
      else if lookahead = ch CHR ''{'' then ADVANCE 101
      else if (9 \<le> lookahead \<and> lookahead \<le> 13) \<or> lookahead = ch CHR '' '' then ADVANCE 95
      else if lookahead \<noteq> 0 then ADVANCE 102
      else END_STATE)
  else if state = 96 then
     (ACCEPT_TOKEN sym_text,
      if lookahead = ch CHR ''#'' then ADVANCE 92
      else if lookahead = ch CHR ''<'' then ADVANCE 99
      else if lookahead = ch CHR ''{'' then ADVANCE 100
      else if (9 \<le> lookahead \<and> lookahead \<le> 13) \<or> lookahead = ch CHR '' '' then ADVANCE 96
      else if lookahead \<noteq> 0 then ADVANCE 102
      else END_STATE)
  else if state = 97 then
     (ACCEPT_TOKEN sym_text,
      if lookahead = ch CHR ''-'' then ADVANCE 44
      else if lookahead \<noteq> 0 \<and> lookahead \<noteq> ch CHR ''#'' \<and> lookahead \<noteq> ch CHR ''<'' \<and> lookahead \<noteq> ch CHR ''{'' then ADVANCE 102
      else END_STATE)
  else if state = 98 then
     (ACCEPT_TOKEN sym_text,
      if lookahead = ch CHR ''-'' then ADVANCE 97
      else if lookahead \<noteq> 0 \<and> lookahead \<noteq> ch CHR ''#'' \<and> lookahead \<noteq> ch CHR ''<'' \<and> lookahead \<noteq> ch CHR ''{'' then ADVANCE 102
      else END_STATE)
  else if state = 99 then
     (ACCEPT_TOKEN sym_text,
      if lookahead = ch CHR ''<'' then ADVANCE 12
      else END_STATE)
  else if state = 100 then
     (ACCEPT_TOKEN sym_text,
      if lookahead = ch CHR ''{'' then ADVANCE 54
      else END_STATE)
  else if state = 101 then
     (ACCEPT_TOKEN sym_text,
      if lookahead = ch CHR ''{'' then ADVANCE 53
      else END_STATE)
  else if state = 102 then
     (ACCEPT_TOKEN sym_text,
      if lookahead \<noteq> 0 \<and> lookahead \<noteq> ch CHR ''#'' \<and> lookahead \<noteq> ch CHR ''<'' \<and> lookahead \<noteq> ch CHR ''{'' then ADVANCE 102
      else END_STATE)
  else (NO_TOKEN, RETURN_FALSE))"

lemma ts_lex_case_simps:
  "ts_lex_case 0 eof lookahead =
     (NO_TOKEN,
      if eof then ADVANCE 40
      else if lookahead = 34 then ADVANCE 78
      else if lookahead = ch CHR ''#'' then ADVANCE 41
      else if lookahead = 39 then ADVANCE 81
      else if lookahead = ch CHR ''-'' then ADVANCE 6
      else if lookahead = ch CHR '':'' then ADVANCE 47
      else if lookahead = ch CHR ''<'' then ADVANCE 13
      else if lookahead = ch CHR ''='' then ADVANCE 65
      else if lookahead = ch CHR ''>'' then ADVANCE 56
      else if lookahead = ch CHR ''@'' then ADVANCE 33
      else if lookahead = ch CHR ''e'' then ADVANCE 71
      else if lookahead = ch CHR ''f'' then ADVANCE 67
      else if lookahead = ch CHR ''t'' then ADVANCE 73
      else if lookahead = ch CHR ''{'' then ADVANCE 26
      else if lookahead = ch CHR ''}'' then ADVANCE 27
      else if (9 \<le> lookahead \<and> lookahead \<le> 13) \<or> lookahead = ch CHR '' '' then SKIP 0
      else if (ch CHR ''0'' \<le> lookahead \<and> lookahead \<le> ch CHR ''9'') then ADVANCE 84
      else if (ch CHR ''A'' \<le> lookahead \<and> lookahead \<le> ch CHR ''Z'') \<or> lookahead = ch CHR ''_'' \<or> (ch CHR ''a'' \<le> lookahead \<and> lookahead \<le> ch CHR ''z'') then ADVANCE 77
      else END_STATE)"
  "ts_lex_case 1 eof lookahead =
     (NO_TOKEN,
      if lookahead = 10 then ADVANCE 42
      else if lookahead = 13 then ADVANCE 48
      else if (9 \<le> lookahead \<and> lookahead \<le> 12) \<or> lookahead = ch CHR '' '' then ADVANCE 48
      else if lookahead \<noteq> 0 then ADVANCE 49
      else END_STATE)"
  "ts_lex_case 2 eof lookahead =
     (NO_TOKEN,
      if lookahead = 10 then ADVANCE 43
      else if lookahead = 13 then ADVANCE 2
      else if (9 \<le> lookahead \<and> lookahead \<le> 12) \<or> lookahead = ch CHR '' '' then SKIP 2
      else END_STATE)"
  "ts_lex_case 3 eof lookahead =
     (NO_TOKEN,
      if lookahead = 34 then ADVANCE 78
      else if lookahead = 39 then ADVANCE 81
      else if lookahead = ch CHR ''-'' then ADVANCE 31
      else if lookahead = ch CHR ''='' then ADVANCE 65
      else if lookahead = ch CHR ''>'' then ADVANCE 14
      else if lookahead = ch CHR ''@'' then ADVANCE 33
      else if lookahead = ch CHR ''f'' then ADVANCE 67
      else if lookahead = ch CHR ''t'' then ADVANCE 73
      else if lookahead = ch CHR ''}'' then ADVANCE 27
      else if (9 \<le> lookahead \<and> lookahead \<le> 13) \<or> lookahead = ch CHR '' '' then SKIP 3
      else if (ch CHR ''0'' \<le> lookahead \<and> lookahead \<le> ch CHR ''9'') then ADVANCE 84
      else if (ch CHR ''A'' \<le> lookahead \<and> lookahead \<le> ch CHR ''Z'') \<or> lookahead = ch CHR ''_'' \<or> (ch CHR ''a'' \<le> lookahead \<and> lookahead \<le> ch CHR ''z'') then ADVANCE 77
      else END_STATE)"
  "ts_lex_case 4 eof lookahead =
     (NO_TOKEN,
      if lookahead = ch CHR ''#'' then ADVANCE 41
      else if lookahead = ch CHR ''-'' then ADVANCE 10
      else if (9 \<le> lookahead \<and> lookahead \<le> 13) \<or> lookahead = ch CHR '' '' then ADVANCE 45
      else if (ch CHR ''A'' \<le> lookahead \<and> lookahead \<le> ch CHR ''Z'') \<or> lookahead = ch CHR ''_'' \<or> (ch CHR ''a'' \<le> lookahead \<and> lookahead \<le> ch CHR ''z'') then ADVANCE 46
      else END_STATE)"
  "ts_lex_case 5 eof lookahead =
     (NO_TOKEN,
      if lookahead = ch CHR ''#'' then ADVANCE 92
      else if lookahead = ch CHR ''<'' then ADVANCE 99
      else if lookahead = ch CHR ''{'' then ADVANCE 100
      else if (9 \<le> lookahead \<and> lookahead \<le> 13) \<or> lookahead = ch CHR '' '' then ADVANCE 96
      else if lookahead \<noteq> 0 then ADVANCE 102
      else END_STATE)"
  "ts_lex_case 6 eof lookahead =
     (NO_TOKEN,
      if lookahead = ch CHR ''-'' then ADVANCE 8
      else if (ch CHR ''0'' \<le> lookahead \<and> lookahead \<le> ch CHR ''9'') then ADVANCE 84
      else END_STATE)"
  "ts_lex_case 7 eof lookahead =
     (NO_TOKEN,
      if lookahead = ch CHR ''-'' then ADVANCE 44
      else END_STATE)"
  "ts_lex_case 8 eof lookahead =
     (NO_TOKEN,
      if lookahead = ch CHR ''-'' then ADVANCE 44
      else if lookahead = ch CHR ''}'' then ADVANCE 28
      else END_STATE)"
  "ts_lex_case 9 eof lookahead =
     (NO_TOKEN,
      if lookahead = ch CHR ''-'' then ADVANCE 61
      else END_STATE)"
  "ts_lex_case 10 eof lookahead =
     (NO_TOKEN,
      if lookahead = ch CHR ''-'' then ADVANCE 7
      else END_STATE)"
  "ts_lex_case 11 eof lookahead =
     (NO_TOKEN,
      if lookahead = ch CHR '':'' then ADVANCE 88
      else END_STATE)"
  "ts_lex_case 12 eof lookahead =
     (NO_TOKEN,
      if lookahead = ch CHR ''<'' then ADVANCE 17
      else END_STATE)"
  "ts_lex_case 13 eof lookahead =
     (NO_TOKEN,
      if lookahead = ch CHR ''<'' then ADVANCE 12
      else END_STATE)"
  "ts_lex_case 14 eof lookahead =
     (NO_TOKEN,
      if lookahead = ch CHR ''>'' then ADVANCE 15
      else END_STATE)"
  "ts_lex_case 15 eof lookahead =
     (NO_TOKEN,
      if lookahead = ch CHR ''>'' then ADVANCE 91
      else END_STATE)"
  "ts_lex_case 16 eof lookahead =
     (NO_TOKEN,
      if lookahead = ch CHR ''>'' then ADVANCE 55
      else if lookahead = ch CHR ''@'' then ADVANCE 33
      else if lookahead = ch CHR ''e'' then ADVANCE 71
      else if (9 \<le> lookahead \<and> lookahead \<le> 13) \<or> lookahead = ch CHR '' '' then SKIP 16
      else if (ch CHR ''A'' \<le> lookahead \<and> lookahead \<le> ch CHR ''Z'') \<or> lookahead = ch CHR ''_'' \<or> (ch CHR ''a'' \<le> lookahead \<and> lookahead \<le> ch CHR ''z'') then ADVANCE 77
      else END_STATE)"
  "ts_lex_case 17 eof lookahead =
     (NO_TOKEN,
      if lookahead = ch CHR ''d'' then ADVANCE 19
      else END_STATE)"
  "ts_lex_case 18 eof lookahead =
     (NO_TOKEN,
      if lookahead = ch CHR ''m'' then ADVANCE 22
      else END_STATE)"
  "ts_lex_case 19 eof lookahead =
     (NO_TOKEN,
      if lookahead = ch CHR ''o'' then ADVANCE 24
      else END_STATE)"
  "ts_lex_case 20 eof lookahead =
     (NO_TOKEN,
      if lookahead = ch CHR ''o'' then ADVANCE 18
      else END_STATE)"
  "ts_lex_case 21 eof lookahead =
     (NO_TOKEN,
      if lookahead = ch CHR ''p'' then ADVANCE 23
      else END_STATE)"
  "ts_lex_case 22 eof lookahead =
     (NO_TOKEN,
      if lookahead = ch CHR ''p'' then ADVANCE 25
      else END_STATE)"
  "ts_lex_case 23 eof lookahead =
     (NO_TOKEN,
      if lookahead = ch CHR ''r'' then ADVANCE 20
      else END_STATE)"
  "ts_lex_case 24 eof lookahead =
     (NO_TOKEN,
      if lookahead = ch CHR ''t'' then ADVANCE 21
      else END_STATE)"
  "ts_lex_case 25 eof lookahead =
     (NO_TOKEN,
      if lookahead = ch CHR ''t'' then ADVANCE 11
      else END_STATE)"
  "ts_lex_case 26 eof lookahead =
     (NO_TOKEN,
      if lookahead = ch CHR ''{'' then ADVANCE 54
      else END_STATE)"
  "ts_lex_case 27 eof lookahead =
     (NO_TOKEN,
      if lookahead = ch CHR ''}'' then ADVANCE 51
      else END_STATE)"
  "ts_lex_case 28 eof lookahead =
     (NO_TOKEN,
      if lookahead = ch CHR ''}'' then ADVANCE 64
      else END_STATE)"
  "ts_lex_case 29 eof lookahead =
     (NO_TOKEN,
      if (9 \<le> lookahead \<and> lookahead \<le> 13) \<or> lookahead = ch CHR '' '' then SKIP 29
      else if (ch CHR ''A'' \<le> lookahead \<and> lookahead \<le> ch CHR ''Z'') \<or> lookahead = ch CHR ''_'' \<or> (ch CHR ''a'' \<le> lookahead \<and> lookahead \<le> ch CHR ''z'') then ADVANCE 77
      else END_STATE)"
  "ts_lex_case 30 eof lookahead =
     (NO_TOKEN,
      if (9 \<le> lookahead \<and> lookahead \<le> 13) \<or> lookahead = ch CHR '' '' then ADVANCE 89
      else if lookahead \<noteq> 0 \<and> lookahead \<noteq> ch CHR ''>'' then ADVANCE 90
      else END_STATE)"
  "ts_lex_case 31 eof lookahead =
     (NO_TOKEN,
      if (ch CHR ''0'' \<le> lookahead \<and> lookahead \<le> ch CHR ''9'') then ADVANCE 84
      else END_STATE)"
  "ts_lex_case 32 eof lookahead =
     (NO_TOKEN,
      if (ch CHR ''0'' \<le> lookahead \<and> lookahead \<le> ch CHR ''9'') then ADVANCE 85
      else END_STATE)"
  "ts_lex_case 33 eof lookahead =
     (NO_TOKEN,
      if (ch CHR ''A'' \<le> lookahead \<and> lookahead \<le> ch CHR ''Z'') \<or> lookahead = ch CHR ''_'' \<or> (ch CHR ''a'' \<le> lookahead \<and> lookahead \<le> ch CHR ''z'') then ADVANCE 66
      else END_STATE)"
  "ts_lex_case 34 eof lookahead =
     (NO_TOKEN,
      if lookahead \<noteq> 0 \<and> lookahead \<noteq> 10 then ADVANCE 83
      else END_STATE)"
  "ts_lex_case 35 eof lookahead =
     (NO_TOKEN,
      if lookahead \<noteq> 0 \<and> lookahead \<noteq> 10 then ADVANCE 80
      else END_STATE)"
  "ts_lex_case 36 eof lookahead =
     (NO_TOKEN,
      if lookahead \<noteq> 0 \<and> lookahead \<noteq> ch CHR ''}'' then ADVANCE 60
      else END_STATE)"
  "ts_lex_case 37 eof lookahead =
     (NO_TOKEN,
      if eof then ADVANCE 40
      else if lookahead = ch CHR ''#'' then ADVANCE 41
      else if lookahead = ch CHR ''-'' then ADVANCE 98
      else if lookahead = ch CHR ''<'' then ADVANCE 99
      else if lookahead = ch CHR ''{'' then ADVANCE 101
      else if (9 \<le> lookahead \<and> lookahead \<le> 13) \<or> lookahead = ch CHR '' '' then ADVANCE 93
      else if lookahead \<noteq> 0 then ADVANCE 102
      else END_STATE)"
  "ts_lex_case 38 eof lookahead =
     (NO_TOKEN,
      if eof then ADVANCE 40
      else if lookahead = ch CHR ''#'' then ADVANCE 92
      else if lookahead = ch CHR ''-'' then ADVANCE 98
      else if lookahead = ch CHR ''<'' then ADVANCE 99
      else if lookahead = ch CHR ''{'' then ADVANCE 101
      else if (9 \<le> lookahead \<and> lookahead \<le> 13) \<or> lookahead = ch CHR '' '' then ADVANCE 94
      else if lookahead \<noteq> 0 then ADVANCE 102
      else END_STATE)"
  "ts_lex_case 39 eof lookahead =
     (NO_TOKEN,
      if eof then ADVANCE 40
      else if lookahead = ch CHR ''#'' then ADVANCE 92
      else if lookahead = ch CHR ''<'' then ADVANCE 99
      else if lookahead = ch CHR ''{'' then ADVANCE 101
      else if (9 \<le> lookahead \<and> lookahead \<le> 13) \<or> lookahead = ch CHR '' '' then ADVANCE 95
      else if lookahead \<noteq> 0 then ADVANCE 102
      else END_STATE)"
  "ts_lex_case 40 eof lookahead =
     (ACCEPT_TOKEN ts_builtin_sym_end,
      END_STATE)"
  "ts_lex_case 41 eof lookahead =
     (ACCEPT_TOKEN sym_header_comment,
      if lookahead \<noteq> 0 \<and> lookahead \<noteq> 10 then ADVANCE 41
      else END_STATE)"
  "ts_lex_case 42 eof lookahead =
     (ACCEPT_TOKEN aux_sym_frontmatter_token1,
      if lookahead = 10 then ADVANCE 42
      else if lookahead = 13 then ADVANCE 48
      else if (9 \<le> lookahead \<and> lookahead \<le> 12) \<or> lookahead = ch CHR '' '' then ADVANCE 48
      else END_STATE)"
  "ts_lex_case 43 eof lookahead =
     (ACCEPT_TOKEN aux_sym_frontmatter_token1,
      if lookahead = 10 then ADVANCE 43
      else if lookahead = 13 then ADVANCE 2
      else END_STATE)"
  "ts_lex_case 44 eof lookahead =
     (ACCEPT_TOKEN sym_frontmatter_delimiter,
      END_STATE)"
  "ts_lex_case 45 eof lookahead =
     (ACCEPT_TOKEN aux_sym__yaml_content_token1,
      if lookahead = ch CHR ''-'' then ADVANCE 10
      else if (9 \<le> lookahead \<and> lookahead \<le> 13) \<or> lookahead = ch CHR '' '' then ADVANCE 45
      else END_STATE)"
  "ts_lex_case 46 eof lookahead =
     (ACCEPT_TOKEN aux_sym_yaml_line_token1,
      if lookahead = ch CHR ''-'' \<or> (ch CHR ''0'' \<le> lookahead \<and> lookahead \<le> ch CHR ''9'') \<or> (ch CHR ''A'' \<le> lookahead \<and> lookahead \<le> ch CHR ''Z'') \<or> lookahead = ch CHR ''_'' \<or> (ch CHR ''a'' \<le> lookahead \<and> lookahead \<le> ch CHR ''z'') then ADVANCE 46
      else END_STATE)"
  "ts_lex_case 47 eof lookahead =
     (ACCEPT_TOKEN anon_sym_COLON,
      END_STATE)"
  "ts_lex_case 48 eof lookahead =
     (ACCEPT_TOKEN aux_sym_yaml_line_token2,
      if lookahead = 10 then ADVANCE 42
      else if lookahead = 13 then ADVANCE 48
      else if (9 \<le> lookahead \<and> lookahead \<le> 12) \<or> lookahead = ch CHR '' '' then ADVANCE 48
      else if lookahead \<noteq> 0 then ADVANCE 49
      else END_STATE)"
  "ts_lex_case 49 eof lookahead =
     (ACCEPT_TOKEN aux_sym_yaml_line_token2,
      if lookahead \<noteq> 0 \<and> lookahead \<noteq> 10 then ADVANCE 49
      else END_STATE)"
  "ts_lex_case 50 eof lookahead =
     (ACCEPT_TOKEN anon_sym_LBRACE_LBRACE_POUND,
      END_STATE)"
  "ts_lex_case 51 eof lookahead =
     (ACCEPT_TOKEN anon_sym_RBRACE_RBRACE,
      END_STATE)"
  "ts_lex_case 52 eof lookahead =
     (ACCEPT_TOKEN anon_sym_LBRACE_LBRACE_SLASH,
      END_STATE)"
  "ts_lex_case 53 eof lookahead =
     (ACCEPT_TOKEN anon_sym_LBRACE_LBRACE,
      if lookahead = ch CHR ''!'' then ADVANCE 58
      else if lookahead = ch CHR ''#'' then ADVANCE 50
      else END_STATE)"
  "ts_lex_case 54 eof lookahead =
     (ACCEPT_TOKEN anon_sym_LBRACE_LBRACE,
      if lookahead = ch CHR ''!'' then ADVANCE 58
      else if lookahead = ch CHR ''#'' then ADVANCE 50
      else if lookahead = ch CHR ''/'' then ADVANCE 52
      else END_STATE)"
  "ts_lex_case 55 eof lookahead =
     (ACCEPT_TOKEN anon_sym_GT,
      END_STATE)"
  "ts_lex_case 56 eof lookahead =
     (ACCEPT_TOKEN anon_sym_GT,
      if lookahead = ch CHR ''>'' then ADVANCE 15
      else END_STATE)"
  "ts_lex_case 57 eof lookahead =
     (ACCEPT_TOKEN anon_sym_else,
      if lookahead = ch CHR ''.'' \<or> (ch CHR ''0'' \<le> lookahead \<and> lookahead \<le> ch CHR ''9'') \<or> (ch CHR ''A'' \<le> lookahead \<and> lookahead \<le> ch CHR ''Z'') \<or> lookahead = ch CHR ''_'' \<or> (ch CHR ''a'' \<le> lookahead \<and> lookahead \<le> ch CHR ''z'') then ADVANCE 77
      else END_STATE)"
  "ts_lex_case 58 eof lookahead =
     (ACCEPT_TOKEN anon_sym_LBRACE_LBRACE_BANG,
      if lookahead = ch CHR ''-'' then ADVANCE 9
      else END_STATE)"
  "ts_lex_case 59 eof lookahead =
     (ACCEPT_TOKEN aux_sym_handlebars_comment_token1,
      if lookahead = ch CHR ''}'' then ADVANCE 36
      else if (9 \<le> lookahead \<and> lookahead \<le> 13) \<or> lookahead = ch CHR '' '' then ADVANCE 59
      else if lookahead \<noteq> 0 then ADVANCE 60
      else END_STATE)"
  "ts_lex_case 60 eof lookahead =
     (ACCEPT_TOKEN aux_sym_handlebars_comment_token1,
      if lookahead = ch CHR ''}'' then ADVANCE 36
      else if lookahead \<noteq> 0 then ADVANCE 60
      else END_STATE)"
  "ts_lex_case 61 eof lookahead =
     (ACCEPT_TOKEN anon_sym_LBRACE_LBRACE_BANG_DASH_DASH,
      END_STATE)"
  "ts_lex_case 62 eof lookahead =
     (ACCEPT_TOKEN aux_sym_handlebars_comment_token2,
      if lookahead = ch CHR ''-'' then ADVANCE 63
      else if (9 \<le> lookahead \<and> lookahead \<le> 13) \<or> lookahead = ch CHR '' '' then ADVANCE 62
      else if lookahead \<noteq> 0 then ADVANCE 63
      else END_STATE)"
  "ts_lex_case 63 eof lookahead =
     (ACCEPT_TOKEN aux_sym_handlebars_comment_token2,
      if lookahead = ch CHR ''-'' then ADVANCE 63
      else if lookahead \<noteq> 0 then ADVANCE 63
      else END_STATE)"
  "ts_lex_case 64 eof lookahead =
     (ACCEPT_TOKEN anon_sym_DASH_DASH_RBRACE_RBRACE,
      END_STATE)"
  "ts_lex_case 65 eof lookahead =
     (ACCEPT_TOKEN anon_sym_EQ,
      END_STATE)"
  "ts_lex_case 66 eof lookahead =
     (ACCEPT_TOKEN aux_sym_variable_reference_token1,
      if (ch CHR ''0'' \<le> lookahead \<and> lookahead \<le> ch CHR ''9'') \<or> (ch CHR ''A'' \<le> lookahead \<and> lookahead \<le> ch CHR ''Z'') \<or> lookahead = ch CHR ''_'' \<or> (ch CHR ''a'' \<le> lookahead \<and> lookahead \<le> ch CHR ''z'') then ADVANCE 66
      else END_STATE)"
  "ts_lex_case 67 eof lookahead =
     (ACCEPT_TOKEN sym_path,
      if lookahead = ch CHR ''a'' then ADVANCE 72
      else if lookahead = ch CHR ''.'' \<or> (ch CHR ''0'' \<le> lookahead \<and> lookahead \<le> ch CHR ''9'') \<or> (ch CHR ''A'' \<le> lookahead \<and> lookahead \<le> ch CHR ''Z'') \<or> lookahead = ch CHR ''_'' \<or> (ch CHR ''b'' \<le> lookahead \<and> lookahead \<le> ch CHR ''z'') then ADVANCE 77
      else END_STATE)"
  "ts_lex_case 68 eof lookahead =
     (ACCEPT_TOKEN sym_path,
      if lookahead = ch CHR ''e'' then ADVANCE 57
      else if lookahead = ch CHR ''.'' \<or> (ch CHR ''0'' \<le> lookahead \<and> lookahead \<le> ch CHR ''9'') \<or> (ch CHR ''A'' \<le> lookahead \<and> lookahead \<le> ch CHR ''Z'') \<or> lookahead = ch CHR ''_'' \<or> (ch CHR ''a'' \<le> lookahead \<and> lookahead \<le> ch CHR ''z'') then ADVANCE 77
      else END_STATE)"
  "ts_lex_case 69 eof lookahead =
     (ACCEPT_TOKEN sym_path,
      if lookahead = ch CHR ''e'' then ADVANCE 86
      else if lookahead = ch CHR ''.'' \<or> (ch CHR ''0'' \<le> lookahead \<and> lookahead \<le> ch CHR ''9'') \<or> (ch CHR ''A'' \<le> lookahead \<and> lookahead \<le> ch CHR ''Z'') \<or> lookahead = ch CHR ''_'' \<or> (ch CHR ''a'' \<le> lookahead \<and> lookahead \<le> ch CHR ''z'') then ADVANCE 77
      else END_STATE)"
  "ts_lex_case 70 eof lookahead =
     (ACCEPT_TOKEN sym_path,
      if lookahead = ch CHR ''e'' then ADVANCE 87
      else if lookahead = ch CHR ''.'' \<or> (ch CHR ''0'' \<le> lookahead \<and> lookahead \<le> ch CHR ''9'') \<or> (ch CHR ''A'' \<le> lookahead \<and> lookahead \<le> ch CHR ''Z'') \<or> lookahead = ch CHR ''_'' \<or> (ch CHR ''a'' \<le> lookahead \<and> lookahead \<le> ch CHR ''z'') then ADVANCE 77
      else END_STATE)"
  "ts_lex_case 71 eof lookahead =
     (ACCEPT_TOKEN sym_path,
      if lookahead = ch CHR ''l'' then ADVANCE 74
      else if lookahead = ch CHR ''.'' \<or> (ch CHR ''0'' \<le> lookahead \<and> lookahead \<le> ch CHR ''9'') \<or> (ch CHR ''A'' \<le> lookahead \<and> lookahead \<le> ch CHR ''Z'') \<or> lookahead = ch CHR ''_'' \<or> (ch CHR ''a'' \<le> lookahead \<and> lookahead \<le> ch CHR ''z'') then ADVANCE 77
      else END_STATE)"
  "ts_lex_case 72 eof lookahead =
     (ACCEPT_TOKEN sym_path,
      if lookahead = ch CHR ''l'' then ADVANCE 75
      else if lookahead = ch CHR ''.'' \<or> (ch CHR ''0'' \<le> lookahead \<and> lookahead \<le> ch CHR ''9'') \<or> (ch CHR ''A'' \<le> lookahead \<and> lookahead \<le> ch CHR ''Z'') \<or> lookahead = ch CHR ''_'' \<or> (ch CHR ''a'' \<le> lookahead \<and> lookahead \<le> ch CHR ''z'') then ADVANCE 77
      else END_STATE)"
  "ts_lex_case 73 eof lookahead =
     (ACCEPT_TOKEN sym_path,
      if lookahead = ch CHR ''r'' then ADVANCE 76
      else if lookahead = ch CHR ''.'' \<or> (ch CHR ''0'' \<le> lookahead \<and> lookahead \<le> ch CHR ''9'') \<or> (ch CHR ''A'' \<le> lookahead \<and> lookahead \<le> ch CHR ''Z'') \<or> lookahead = ch CHR ''_'' \<or> (ch CHR ''a'' \<le> lookahead \<and> lookahead \<le> ch CHR ''z'') then ADVANCE 77
      else END_STATE)"
  "ts_lex_case 74 eof lookahead =
     (ACCEPT_TOKEN sym_path,
      if lookahead = ch CHR ''s'' then ADVANCE 68
      else if lookahead = ch CHR ''.'' \<or> (ch CHR ''0'' \<le> lookahead \<and> lookahead \<le> ch CHR ''9'') \<or> (ch CHR ''A'' \<le> lookahead \<and> lookahead \<le> ch CHR ''Z'') \<or> lookahead = ch CHR ''_'' \<or> (ch CHR ''a'' \<le> lookahead \<and> lookahead \<le> ch CHR ''z'') then ADVANCE 77
      else END_STATE)"
  "ts_lex_case 75 eof lookahead =
     (ACCEPT_TOKEN sym_path,
      if lookahead = ch CHR ''s'' then ADVANCE 70
      else if lookahead = ch CHR ''.'' \<or> (ch CHR ''0'' \<le> lookahead \<and> lookahead \<le> ch CHR ''9'') \<or> (ch CHR ''A'' \<le> lookahead \<and> lookahead \<le> ch CHR ''Z'') \<or> lookahead = ch CHR ''_'' \<or> (ch CHR ''a'' \<le> lookahead \<and> lookahead \<le> ch CHR ''z'') then ADVANCE 77
      else END_STATE)"
  "ts_lex_case 76 eof lookahead =
     (ACCEPT_TOKEN sym_path,
      if lookahead = ch CHR ''u'' then ADVANCE 69
      else if lookahead = ch CHR ''.'' \<or> (ch CHR ''0'' \<le> lookahead \<and> lookahead \<le> ch CHR ''9'') \<or> (ch CHR ''A'' \<le> lookahead \<and> lookahead \<le> ch CHR ''Z'') \<or> lookahead = ch CHR ''_'' \<or> (ch CHR ''a'' \<le> lookahead \<and> lookahead \<le> ch CHR ''z'') then ADVANCE 77
      else END_STATE)"
  "ts_lex_case 77 eof lookahead =
     (ACCEPT_TOKEN sym_path,
      if lookahead = ch CHR ''.'' \<or> (ch CHR ''0'' \<le> lookahead \<and> lookahead \<le> ch CHR ''9'') \<or> (ch CHR ''A'' \<le> lookahead \<and> lookahead \<le> ch CHR ''Z'') \<or> lookahead = ch CHR ''_'' \<or> (ch CHR ''a'' \<le> lookahead \<and> lookahead \<le> ch CHR ''z'') then ADVANCE 77
      else END_STATE)"
  "ts_lex_case 78 eof lookahead =
     (ACCEPT_TOKEN anon_sym_DQUOTE,
      END_STATE)"
  "ts_lex_case 79 eof lookahead =
     (ACCEPT_TOKEN aux_sym_string_literal_token1,
      if lookahead = 92 then ADVANCE 35
      else if (9 \<le> lookahead \<and> lookahead \<le> 13) \<or> lookahead = ch CHR '' '' then ADVANCE 79
      else if lookahead \<noteq> 0 \<and> lookahead \<noteq> 34 then ADVANCE 80
      else END_STATE)"
  "ts_lex_case 80 eof lookahead =
     (ACCEPT_TOKEN aux_sym_string_literal_token1,
      if lookahead = 92 then ADVANCE 35
      else if lookahead \<noteq> 0 \<and> lookahead \<noteq> 34 then ADVANCE 80
      else END_STATE)"
  "ts_lex_case 81 eof lookahead =
     (ACCEPT_TOKEN anon_sym_SQUOTE,
      END_STATE)"
  "ts_lex_case 82 eof lookahead =
     (ACCEPT_TOKEN aux_sym_string_literal_token2,
      if lookahead = 92 then ADVANCE 34
      else if (9 \<le> lookahead \<and> lookahead \<le> 13) \<or> lookahead = ch CHR '' '' then ADVANCE 82
      else if lookahead \<noteq> 0 \<and> lookahead \<noteq> 39 then ADVANCE 83
      else END_STATE)"
  "ts_lex_case 83 eof lookahead =
     (ACCEPT_TOKEN aux_sym_string_literal_token2,
      if lookahead = 92 then ADVANCE 34
      else if lookahead \<noteq> 0 \<and> lookahead \<noteq> 39 then ADVANCE 83
      else END_STATE)"
  "ts_lex_case 84 eof lookahead =
     (ACCEPT_TOKEN sym_number,
      if lookahead = ch CHR ''.'' then ADVANCE 32
      else if (ch CHR ''0'' \<le> lookahead \<and> lookahead \<le> ch CHR ''9'') then ADVANCE 84
      else END_STATE)"
  "ts_lex_case 85 eof lookahead =
     (ACCEPT_TOKEN sym_number,
      if (ch CHR ''0'' \<le> lookahead \<and> lookahead \<le> ch CHR ''9'') then ADVANCE 85
      else END_STATE)"
  "ts_lex_case 86 eof lookahead =
     (ACCEPT_TOKEN anon_sym_true,
      if lookahead = ch CHR ''.'' \<or> (ch CHR ''0'' \<le> lookahead \<and> lookahead \<le> ch CHR ''9'') \<or> (ch CHR ''A'' \<le> lookahead \<and> lookahead \<le> ch CHR ''Z'') \<or> lookahead = ch CHR ''_'' \<or> (ch CHR ''a'' \<le> lookahead \<and> lookahead \<le> ch CHR ''z'') then ADVANCE 77
      else END_STATE)"
  "ts_lex_case 87 eof lookahead =
     (ACCEPT_TOKEN anon_sym_false,
      if lookahead = ch CHR ''.'' \<or> (ch CHR ''0'' \<le> lookahead \<and> lookahead \<le> ch CHR ''9'') \<or> (ch CHR ''A'' \<le> lookahead \<and> lookahead \<le> ch CHR ''Z'') \<or> lookahead = ch CHR ''_'' \<or> (ch CHR ''a'' \<le> lookahead \<and> lookahead \<le> ch CHR ''z'') then ADVANCE 77
      else END_STATE)"
  "ts_lex_case 88 eof lookahead =
     (ACCEPT_TOKEN anon_sym_LT_LT_LTdotprompt_COLON,
      END_STATE)"
  "ts_lex_case 89 eof lookahead =
     (ACCEPT_TOKEN aux_sym_dotprompt_marker_token1,
      if (9 \<le> lookahead \<and> lookahead \<le> 13) \<or> lookahead = ch CHR '' '' then ADVANCE 89
      else if lookahead \<noteq> 0 \<and> lookahead \<noteq> ch CHR ''>'' then ADVANCE 90
      else END_STATE)"
  "ts_lex_case 90 eof lookahead =
     (ACCEPT_TOKEN aux_sym_dotprompt_marker_token1,
      if lookahead \<noteq> 0 \<and> lookahead \<noteq> ch CHR ''>'' then ADVANCE 90
      else END_STATE)"
  "ts_lex_case 91 eof lookahead =
     (ACCEPT_TOKEN anon_sym_GT_GT_GT,
      END_STATE)"
  "ts_lex_case 92 eof lookahead =
     (ACCEPT_TOKEN sym_text,
      END_STATE)"
  "ts_lex_case 93 eof lookahead =
     (ACCEPT_TOKEN sym_text,
      if lookahead = ch CHR ''#'' then ADVANCE 41
      else if lookahead = ch CHR ''-'' then ADVANCE 98
      else if lookahead = ch CHR ''<'' then ADVANCE 99
      else if lookahead = ch CHR ''{'' then ADVANCE 101
      else if (9 \<le> lookahead \<and> lookahead \<le> 13) \<or> lookahead = ch CHR '' '' then ADVANCE 93
      else if lookahead \<noteq> 0 then ADVANCE 102
      else END_STATE)"
  "ts_lex_case 94 eof lookahead =
     (ACCEPT_TOKEN sym_text,
      if lookahead = ch CHR ''#'' then ADVANCE 92
      else if lookahead = ch CHR ''-'' then ADVANCE 98
      else if lookahead = ch CHR ''<'' then ADVANCE 99
      else if lookahead = ch CHR ''{'' then ADVANCE 101
      else if (9 \<le> lookahead \<and> lookahead \<le> 13) \<or> lookahead = ch CHR '' '' then ADVANCE 94
      else if lookahead \<noteq> 0 then ADVANCE 102
      else END_STATE)"
  "ts_lex_case 95 eof lookahead =
     (ACCEPT_TOKEN sym_text,
      if lookahead = ch CHR ''#'' then ADVANCE 92
      else if lookahead = ch CHR ''<'' then ADVANCE 99
      else if lookahead = ch CHR ''{'' then ADVANCE 101
      else if (9 \<le> lookahead \<and> lookahead \<le> 13) \<or> lookahead = ch CHR '' '' then ADVANCE 95
      else if lookahead \<noteq> 0 then ADVANCE 102
      else END_STATE)"
  "ts_lex_case 96 eof lookahead =
     (ACCEPT_TOKEN sym_text,
      if lookahead = ch CHR ''#'' then ADVANCE 92
      else if lookahead = ch CHR ''<'' then ADVANCE 99
      else if lookahead = ch CHR ''{'' then ADVANCE 100
      else if (9 \<le> lookahead \<and> lookahead \<le> 13) \<or> lookahead = ch CHR '' '' then ADVANCE 96
      else if lookahead \<noteq> 0 then ADVANCE 102
      else END_STATE)"
  "ts_lex_case 97 eof lookahead =
     (ACCEPT_TOKEN sym_text,
      if lookahead = ch CHR ''-'' then ADVANCE 44
      else if lookahead \<noteq> 0 \<and> lookahead \<noteq> ch CHR ''#'' \<and> lookahead \<noteq> ch CHR ''<'' \<and> lookahead \<noteq> ch CHR ''{'' then ADVANCE 102
      else END_STATE)"
  "ts_lex_case 98 eof lookahead =
     (ACCEPT_TOKEN sym_text,
      if lookahead = ch CHR ''-'' then ADVANCE 97
      else if lookahead \<noteq> 0 \<and> lookahead \<noteq> ch CHR ''#'' \<and> lookahead \<noteq> ch CHR ''<'' \<and> lookahead \<noteq> ch CHR ''{'' then ADVANCE 102
      else END_STATE)"
  "ts_lex_case 99 eof lookahead =
     (ACCEPT_TOKEN sym_text,
      if lookahead = ch CHR ''<'' then ADVANCE 12
      else END_STATE)"
  "ts_lex_case 100 eof lookahead =
     (ACCEPT_TOKEN sym_text,
      if lookahead = ch CHR ''{'' then ADVANCE 54
      else END_STATE)"
  "ts_lex_case 101 eof lookahead =
     (ACCEPT_TOKEN sym_text,
      if lookahead = ch CHR ''{'' then ADVANCE 53
      else END_STATE)"
  "ts_lex_case 102 eof lookahead =
     (ACCEPT_TOKEN sym_text,
      if lookahead \<noteq> 0 \<and> lookahead \<noteq> ch CHR ''#'' \<and> lookahead \<noteq> ch CHR ''<'' \<and> lookahead \<noteq> ch CHR ''{'' then ADVANCE 102
      else END_STATE)"
  by (simp_all add: ts_lex_case_def)

subsection \<open>Running the automaton: the macros of tree\_sitter/parser.h\<close>

text \<open>
  Modelled from the spec: the cursor behind \<open>START_LEXER\<close>, \<open>ADVANCE\<close>, \<open>SKIP\<close>,
  \<open>ACCEPT_TOKEN\<close> and \<open>END_STATE\<close>. These macros and the \<open>TSLexer\<close> they act on are
  declared in tree\_sitter/parser.h, which is not under src/. The spec's tokenizer contract
  is \<open>next_token(mode, cursor) -> (Token, new_cursor)\<close> with a token made of a kind and
  a text span. The cursor counts the characters consumed since the call
  (\<open>position\<close>); \<open>ADVANCE\<close> consumes the lookahead, \<open>SKIP\<close> consumes it and moves
  the start of the token behind it, \<open>ACCEPT_TOKEN\<close> sets \<open>result\<close>, stores the
  symbol and marks the end of the token at the current position, and \<open>END_STATE\<close> returns
  \<open>result\<close>. At end of input the lookahead is 0, \<open>eof\<close> holds, and consuming
  does not move the cursor.
\<close>

record TSLexer =
  result :: bool
  result_symbol :: TSSymbol
  position :: nat
  token_start :: nat
  token_end :: nat

definition accept_token :: "TSSymbol option \<Rightarrow> TSLexer \<Rightarrow> TSLexer" where
  "accept_token acc lexer =
     (case acc of
        None \<Rightarrow> lexer
      | Some symbol_value \<Rightarrow>
          lexer\<lparr>result := True, result_symbol := symbol_value, token_end := position lexer\<rparr>)"

definition advance :: "bool \<Rightarrow> bool \<Rightarrow> TSLexer \<Rightarrow> TSLexer" where
  "advance skip eof lexer =
     (let p = (if eof then position lexer else position lexer + 1)
      in lexer\<lparr>position := p, token_start := (if skip then p else token_start lexer)\<rparr>)"

lemma ts_lex_case_eof:
  "snd (ts_lex_case state True 0) \<noteq> SKIP s"
  "snd (ts_lex_case state True 0) = ADVANCE s \<Longrightarrow> s = 40 \<and> state \<noteq> 40"
  by (simp_all add: ts_lex_case_def split: if_splits)

function ts_lex_loop :: "nat \<Rightarrow> TSLexer \<Rightarrow> int list \<Rightarrow> TSLexer" where
  "ts_lex_loop state lexer [] =
     (let lexer = accept_token (fst (ts_lex_case state True 0)) lexer
      in case snd (ts_lex_case state True 0) of
           ADVANCE s \<Rightarrow> ts_lex_loop s (advance False True lexer) []
         | SKIP s \<Rightarrow> ts_lex_loop s (advance True True lexer) []
         | END_STATE \<Rightarrow> lexer
         | RETURN_FALSE \<Rightarrow> lexer\<lparr>result := False\<rparr>)"
| "ts_lex_loop state lexer (lookahead # rest) =
     (let lexer = accept_token (fst (ts_lex_case state False lookahead)) lexer
      in case snd (ts_lex_case state False lookahead) of
           ADVANCE s \<Rightarrow> ts_lex_loop s (advance False False lexer) rest
         | SKIP s \<Rightarrow> ts_lex_loop s (advance True False lexer) rest
         | END_STATE \<Rightarrow> lexer
         | RETURN_FALSE \<Rightarrow> lexer\<lparr>result := False\<rparr>)"
  by pat_completeness auto
termination
proof (relation "measure (\<lambda>(state, lexer, inp). 2 * length inp + (if state = 40 then 0 else 1))")
  fix state :: nat and lexer x :: TSLexer and s
  assume "snd (ts_lex_case state True 0) = ADVANCE s"
  then have "s = 40 \<and> state \<noteq> 40"
    by (rule ts_lex_case_eof(2))
  then show "((s, advance False True x, []), state, lexer, [])
        \<in> measure (\<lambda>(state, lexer, inp). 2 * length inp + (if state = 40 then 0 else 1))"
    by simp
next
  fix state :: nat and lexer x :: TSLexer and s
  assume "snd (ts_lex_case state True 0) = SKIP s"
  then show "((s, advance True True x, []), state, lexer, [])
        \<in> measure (\<lambda>(state, lexer, inp). 2 * length inp + (if state = 40 then 0 else 1))"
    using ts_lex_case_eof(1) by blast
qed simp_all

text \<open>
  A token has a symbol, the skipped characters before it (its padding) and its text.
  \<open>ts_lex\<close> runs the automaton from a lexer state on the rest of the input. When it
  returns true the token lies between the start and the marked end, and the rest of the
  input begins at the marked end, wherever the automaton looked ahead to. A start that a
  later \<open>SKIP\<close> moved behind the marked end is put back on the end.
\<close>

record token =
  tok_sym :: TSSymbol
  tok_padding :: "int list"
  tok_text :: "int list"

definition ts_lex :: "nat \<Rightarrow> int list \<Rightarrow> (token \<times> int list) option" where
  "ts_lex state inp =
     (let lexer = ts_lex_loop state
            \<lparr>result = False, result_symbol = 0, position = 0, token_start = 0, token_end = 0\<rparr> inp
      in if result lexer
         then let start = min (token_start lexer) (token_end lexer)
              in Some (\<lparr>tok_sym = result_symbol lexer,
                         tok_padding = take start inp,
                         tok_text = drop start (take (token_end lexer) inp)\<rparr>,
                       drop (token_end lexer) inp)
         else None)"


subsection \<open>ts\_lex\_modes: the lexer state of each parse state\<close>

definition ts_lex_modes :: "TSStateId \<Rightarrow> nat" where
"ts_lex_modes state =
    (if state < STATE_COUNT then
    [0, 37, 38, 39, 5, 5, 5, 39, 5, 5, 39, 39, 3, 3, 3, 3,
    3, 3, 37, 37, 3, 3, 3, 3, 3, 3, 5, 39, 39, 39, 5, 5,
    5, 4, 4, 4, 5, 39, 39, 39, 5, 5, 5, 39, 39, 16, 16, 4,
    4, 4, 1, 0, 0, 2, 82, 2, 79, 0, 0, 0, 2, 29, 0, 2,
    3, 0, 0, 0, 0, 3, 0, 29, 0, 0, 30, 62, 0, 0, 0, 0,
    59, 0, 29, 59, 62, 30, 29] ! state
     else 0)"

subsection \<open>The parse tables\<close>

text \<open>
  \<open>ACTIONS(id)\<close> and \<open>STATE(id)\<close> both expand to \<open>id\<close>: an entry of a parse table
  is an index into \<open>ts_parse_actions\<close> under a terminal symbol and a next state under a
  non-terminal one; 0 is no entry. The first \<open>LARGE_STATE_COUNT\<close> states have a full
  row in \<open>ts_parse_table\<close>. The others share \<open>ts_small_parse_table\<close>, where the
  row of a state begins at the offset \<open>ts_small_parse_table_map\<close> gives for
  \<open>SMALL_STATE(state) = state - LARGE_STATE_COUNT\<close> and is a list of sections, each a
  value with the symbols that have it. The tables hold no state from \<open>STATE_COUNT\<close> on;
  the lookups give such a state no entry.
\<close>

abbreviation (input) ACTIONS :: "nat \<Rightarrow> nat" where "ACTIONS i \<equiv> i"
abbreviation (input) STATE :: "nat \<Rightarrow> nat" where "STATE i \<equiv> i"

definition ts_parse_table :: "TSStateId \<Rightarrow> TSSymbol \<Rightarrow> nat" where
"ts_parse_table state symbol =
 (if state = 0 then
    (if symbol = ts_builtin_sym_end then ACTIONS 1
     else if symbol = sym_header_comment then ACTIONS 1
     else if symbol = sym_frontmatter_delimiter then ACTIONS 1
     else if symbol = anon_sym_COLON then ACTIONS 1
     else if symbol = anon_sym_LBRACE_LBRACE_POUND then ACTIONS 1
     else if symbol = anon_sym_RBRACE_RBRACE then ACTIONS 1
     else if symbol = anon_sym_LBRACE_LBRACE_SLASH then ACTIONS 1
     else if symbol = anon_sym_LBRACE_LBRACE then ACTIONS 1
     else if symbol = anon_sym_GT then ACTIONS 1
     else if symbol = anon_sym_else then ACTIONS 1
     else if symbol = anon_sym_LBRACE_LBRACE_BANG then ACTIONS 1
     else if symbol = anon_sym_LBRACE_LBRACE_BANG_DASH_DASH then ACTIONS 1
     else if symbol = anon_sym_DASH_DASH_RBRACE_RBRACE then ACTIONS 1
     else if symbol = anon_sym_EQ then ACTIONS 1
     else if symbol = aux_sym_variable_reference_token1 then ACTIONS 1
     else if symbol = sym_path then ACTIONS 1
     else if symbol = anon_sym_DQUOTE then ACTIONS 1
     else if symbol = anon_sym_SQUOTE then ACTIONS 1
     else if symbol = sym_number then ACTIONS 1
     else if symbol = anon_sym_true then ACTIONS 1
     else if symbol = anon_sym_false then ACTIONS 1
     else if symbol = anon_sym_LT_LT_LTdotprompt_COLON then ACTIONS 1
     else if symbol = anon_sym_GT_GT_GT then ACTIONS 1
     else 0)
  else if state = 1 then
    (if symbol = sym_document then STATE 73
     else if symbol = sym_license_header then STATE 2
     else if symbol = sym_frontmatter then STATE 7
     else if symbol = sym_template_body then STATE 72
     else if symbol = sym__content then STATE 10
     else if symbol = sym_handlebars_block then STATE 10
     else if symbol = sym_block_expression then STATE 8
     else if symbol = sym_handlebars_expression then STATE 10
     else if symbol = sym_handlebars_comment then STATE 10
     else if symbol = sym_dotprompt_marker then STATE 10
     else if symbol = aux_sym_license_header_repeat1 then STATE 18
     else if symbol = aux_sym_template_body_repeat1 then STATE 10
     else if symbol = ts_builtin_sym_end then ACTIONS 3
     else if symbol = sym_header_comment then ACTIONS 5
     else if symbol = sym_frontmatter_delimiter then ACTIONS 7
     else if symbol = anon_sym_LBRACE_LBRACE_POUND then ACTIONS 9
     else if symbol = anon_sym_LBRACE_LBRACE then ACTIONS 11
     else if symbol = anon_sym_LBRACE_LBRACE_BANG then ACTIONS 13
     else if symbol = anon_sym_LBRACE_LBRACE_BANG_DASH_DASH then ACTIONS 15
     else if symbol = anon_sym_LT_LT_LTdotprompt_COLON then ACTIONS 17
     else if symbol = sym_text then ACTIONS 19
     else 0)
  else 0)"

definition ts_small_parse_table :: "nat \<Rightarrow> (nat \<times> TSSymbol list) list" where
"ts_small_parse_table index =
 (if index = 0 then
     [(ACTIONS 7, [sym_frontmatter_delimiter]),
      (ACTIONS 9, [anon_sym_LBRACE_LBRACE_POUND]),
      (ACTIONS 11, [anon_sym_LBRACE_LBRACE]),
      (ACTIONS 13, [anon_sym_LBRACE_LBRACE_BANG]),
      (ACTIONS 15, [anon_sym_LBRACE_LBRACE_BANG_DASH_DASH]),
      (ACTIONS 17, [anon_sym_LT_LT_LTdotprompt_COLON]),
      (ACTIONS 19, [sym_text]),
      (ACTIONS 21, [ts_builtin_sym_end]),
      (STATE 3, [sym_frontmatter]),
      (STATE 8, [sym_block_expression]),
      (STATE 62, [sym_template_body]),
      (STATE 10, [sym__content, sym_handlebars_block, sym_handlebars_expression, sym_handlebars_comment, sym_dotprompt_marker, aux_sym_template_body_repeat1])]
  else if index = 42 then
     [(ACTIONS 9, [anon_sym_LBRACE_LBRACE_POUND]),
      (ACTIONS 11, [anon_sym_LBRACE_LBRACE]),
      (ACTIONS 13, [anon_sym_LBRACE_LBRACE_BANG]),
      (ACTIONS 15, [anon_sym_LBRACE_LBRACE_BANG_DASH_DASH]),
      (ACTIONS 17, [anon_sym_LT_LT_LTdotprompt_COLON]),
      (ACTIONS 19, [sym_text]),
      (ACTIONS 23, [ts_builtin_sym_end]),
      (STATE 8, [sym_block_expression]),
      (STATE 68, [sym_template_body]),
      (STATE 10, [sym__content, sym_handlebars_block, sym_handlebars_expression, sym_handlebars_comment, sym_dotprompt_marker, aux_sym_template_body_repeat1])]
  else if index = 78 then
     [(ACTIONS 9, [anon_sym_LBRACE_LBRACE_POUND]),
      (ACTIONS 25, [anon_sym_LBRACE_LBRACE_SLASH]),
      (ACTIONS 27, [anon_sym_LBRACE_LBRACE]),
      (ACTIONS 29, [anon_sym_LBRACE_LBRACE_BANG]),
      (ACTIONS 31, [anon_sym_LBRACE_LBRACE_BANG_DASH_DASH]),
      (ACTIONS 33, [anon_sym_LT_LT_LTdotprompt_COLON]),
      (ACTIONS 35, [sym_text]),
      (STATE 5, [sym_block_expression]),
      (STATE 41, [sym_close_block]),
      (STATE 9, [sym__content, sym_handlebars_block, sym_handlebars_expression, sym_handlebars_comment, sym_dotprompt_marker, aux_sym_template_body_repeat1])]
  else if index = 114 then
     [(ACTIONS 9, [anon_sym_LBRACE_LBRACE_POUND]),
      (ACTIONS 25, [anon_sym_LBRACE_LBRACE_SLASH]),
      (ACTIONS 27, [anon_sym_LBRACE_LBRACE]),
      (ACTIONS 29, [anon_sym_LBRACE_LBRACE_BANG]),
      (ACTIONS 31, [anon_sym_LBRACE_LBRACE_BANG_DASH_DASH]),
      (ACTIONS 33, [anon_sym_LT_LT_LTdotprompt_COLON]),
      (ACTIONS 37, [sym_text]),
      (STATE 5, [sym_block_expression]),
      (STATE 30, [sym_close_block]),
      (STATE 4, [sym__content, sym_handlebars_block, sym_handlebars_expression, sym_handlebars_comment, sym_dotprompt_marker, aux_sym_template_body_repeat1])]
  else if index = 150 then
     [(ACTIONS 9, [anon_sym_LBRACE_LBRACE_POUND]),
      (ACTIONS 27, [anon_sym_LBRACE_LBRACE]),
      (ACTIONS 29, [anon_sym_LBRACE_LBRACE_BANG]),
      (ACTIONS 31, [anon_sym_LBRACE_LBRACE_BANG_DASH_DASH]),
      (ACTIONS 33, [anon_sym_LT_LT_LTdotprompt_COLON]),
      (ACTIONS 35, [sym_text]),
      (ACTIONS 39, [anon_sym_LBRACE_LBRACE_SLASH]),
      (STATE 5, [sym_block_expression]),
      (STATE 39, [sym_close_block]),
      (STATE 9, [sym__content, sym_handlebars_block, sym_handlebars_expression, sym_handlebars_comment, sym_dotprompt_marker, aux_sym_template_body_repeat1])]
  else if index = 186 then
     [(ACTIONS 9, [anon_sym_LBRACE_LBRACE_POUND]),
      (ACTIONS 11, [anon_sym_LBRACE_LBRACE]),
      (ACTIONS 13, [anon_sym_LBRACE_LBRACE_BANG]),
      (ACTIONS 15, [anon_sym_LBRACE_LBRACE_BANG_DASH_DASH]),
      (ACTIONS 17, [anon_sym_LT_LT_LTdotprompt_COLON]),
      (ACTIONS 19, [sym_text]),
      (ACTIONS 21, [ts_builtin_sym_end]),
      (STATE 8, [sym_block_expression]),
      (STATE 62, [sym_template_body]),
      (STATE 10, [sym__content, sym_handlebars_block, sym_handlebars_expression, sym_handlebars_comment, sym_dotprompt_marker, aux_sym_template_body_repeat1])]
  else if index = 222 then
     [(ACTIONS 9, [anon_sym_LBRACE_LBRACE_POUND]),
      (ACTIONS 27, [anon_sym_LBRACE_LBRACE]),
      (ACTIONS 29, [anon_sym_LBRACE_LBRACE_BANG]),
      (ACTIONS 31, [anon_sym_LBRACE_LBRACE_BANG_DASH_DASH]),
      (ACTIONS 33, [anon_sym_LT_LT_LTdotprompt_COLON]),
      (ACTIONS 39, [anon_sym_LBRACE_LBRACE_SLASH]),
      (ACTIONS 41, [sym_text]),
      (STATE 5, [sym_block_expression]),
      (STATE 29, [sym_close_block]),
      (STATE 6, [sym__content, sym_handlebars_block, sym_handlebars_expression, sym_handlebars_comment, sym_dotprompt_marker, aux_sym_template_body_repeat1])]
  else if index = 258 then
     [(ACTIONS 43, [anon_sym_LBRACE_LBRACE_POUND]),
      (ACTIONS 46, [anon_sym_LBRACE_LBRACE_SLASH]),
      (ACTIONS 48, [anon_sym_LBRACE_LBRACE]),
      (ACTIONS 51, [anon_sym_LBRACE_LBRACE_BANG]),
      (ACTIONS 54, [anon_sym_LBRACE_LBRACE_BANG_DASH_DASH]),
      (ACTIONS 57, [anon_sym_LT_LT_LTdotprompt_COLON]),
      (ACTIONS 60, [sym_text]),
      (STATE 5, [sym_block_expression]),
      (STATE 9, [sym__content, sym_handlebars_block, sym_handlebars_expression, sym_handlebars_comment, sym_dotprompt_marker, aux_sym_template_body_repeat1])]
  else if index = 291 then
     [(ACTIONS 9, [anon_sym_LBRACE_LBRACE_POUND]),
      (ACTIONS 11, [anon_sym_LBRACE_LBRACE]),
      (ACTIONS 13, [anon_sym_LBRACE_LBRACE_BANG]),
      (ACTIONS 15, [anon_sym_LBRACE_LBRACE_BANG_DASH_DASH]),
      (ACTIONS 17, [anon_sym_LT_LT_LTdotprompt_COLON]),
      (ACTIONS 63, [ts_builtin_sym_end]),
      (ACTIONS 65, [sym_text]),
      (STATE 8, [sym_block_expression]),
      (STATE 11, [sym__content, sym_handlebars_block, sym_handlebars_expression, sym_handlebars_comment, sym_dotprompt_marker, aux_sym_template_body_repeat1])]
  else if index = 324 then
     [(ACTIONS 43, [anon_sym_LBRACE_LBRACE_POUND]),
      (ACTIONS 67, [ts_builtin_sym_end]),
      (ACTIONS 69, [anon_sym_LBRACE_LBRACE]),
      (ACTIONS 72, [anon_sym_LBRACE_LBRACE_BANG]),
      (ACTIONS 75, [anon_sym_LBRACE_LBRACE_BANG_DASH_DASH]),
      (ACTIONS 78, [anon_sym_LT_LT_LTdotprompt_COLON]),
      (ACTIONS 81, [sym_text]),
      (STATE 8, [sym_block_expression]),
      (STATE 11, [sym__content, sym_handlebars_block, sym_handlebars_expression, sym_handlebars_comment, sym_dotprompt_marker, aux_sym_template_body_repeat1])]
  else if index = 357 then
     [(ACTIONS 84, [anon_sym_RBRACE_RBRACE]),
      (ACTIONS 86, [aux_sym_variable_reference_token1]),
      (ACTIONS 88, [sym_path]),
      (ACTIONS 90, [anon_sym_DQUOTE]),
      (ACTIONS 92, [anon_sym_SQUOTE]),
      (ACTIONS 94, [sym_number]),
      (ACTIONS 96, [anon_sym_true, anon_sym_false]),
      (STATE 16, [sym_argument, aux_sym_block_expression_repeat1]),
      (STATE 21, [sym_hash_param, sym_variable_reference, sym_string_literal, sym_boolean])]
  else if index = 390 then
     [(ACTIONS 98, [anon_sym_RBRACE_RBRACE]),
      (ACTIONS 100, [aux_sym_variable_reference_token1]),
      (ACTIONS 103, [sym_path]),
      (ACTIONS 106, [anon_sym_DQUOTE]),
      (ACTIONS 109, [anon_sym_SQUOTE]),
      (ACTIONS 112, [sym_number]),
      (ACTIONS 115, [anon_sym_true, anon_sym_false]),
      (STATE 13, [sym_argument, aux_sym_block_expression_repeat1]),
      (STATE 21, [sym_hash_param, sym_variable_reference, sym_string_literal, sym_boolean])]
  else if index = 423 then
     [(ACTIONS 86, [aux_sym_variable_reference_token1]),
      (ACTIONS 88, [sym_path]),
      (ACTIONS 90, [anon_sym_DQUOTE]),
      (ACTIONS 92, [anon_sym_SQUOTE]),
      (ACTIONS 94, [sym_number]),
      (ACTIONS 118, [anon_sym_RBRACE_RBRACE]),
      (ACTIONS 96, [anon_sym_true, anon_sym_false]),
      (STATE 15, [sym_argument, aux_sym_block_expression_repeat1]),
      (STATE 21, [sym_hash_param, sym_variable_reference, sym_string_literal, sym_boolean])]
  else if index = 456 then
     [(ACTIONS 86, [aux_sym_variable_reference_token1]),
      (ACTIONS 88, [sym_path]),
      (ACTIONS 90, [anon_sym_DQUOTE]),
      (ACTIONS 92, [anon_sym_SQUOTE]),
      (ACTIONS 94, [sym_number]),
      (ACTIONS 120, [anon_sym_RBRACE_RBRACE]),
      (ACTIONS 96, [anon_sym_true, anon_sym_false]),
      (STATE 13, [sym_argument, aux_sym_block_expression_repeat1]),
      (STATE 21, [sym_hash_param, sym_variable_reference, sym_string_literal, sym_boolean])]
  else if index = 489 then
     [(ACTIONS 86, [aux_sym_variable_reference_token1]),
      (ACTIONS 88, [sym_path]),
      (ACTIONS 90, [anon_sym_DQUOTE]),
      (ACTIONS 92, [anon_sym_SQUOTE]),
      (ACTIONS 94, [sym_number]),
      (ACTIONS 122, [anon_sym_RBRACE_RBRACE]),
      (ACTIONS 96, [anon_sym_true, anon_sym_false]),
      (STATE 13, [sym_argument, aux_sym_block_expression_repeat1]),
      (STATE 21, [sym_hash_param, sym_variable_reference, sym_string_literal, sym_boolean])]
  else if index = 522 then
     [(ACTIONS 86, [aux_sym_variable_reference_token1]),
      (ACTIONS 90, [anon_sym_DQUOTE]),
      (ACTIONS 92, [anon_sym_SQUOTE]),
      (ACTIONS 124, [sym_path]),
      (ACTIONS 126, [sym_number]),
      (ACTIONS 96, [anon_sym_true, anon_sym_false]),
      (STATE 24, [sym_variable_reference, sym_string_literal, sym_boolean])]
  else if index = 547 then
     [(ACTIONS 128, [ts_builtin_sym_end]),
      (ACTIONS 130, [sym_header_comment]),
      (STATE 19, [aux_sym_license_header_repeat1]),
      (ACTIONS 132, [sym_frontmatter_delimiter, anon_sym_LBRACE_LBRACE_POUND, anon_sym_LBRACE_LBRACE, anon_sym_LBRACE_LBRACE_BANG, anon_sym_LBRACE_LBRACE_BANG_DASH_DASH, anon_sym_LT_LT_LTdotprompt_COLON, sym_text])]
  else if index = 566 then
     [(ACTIONS 134, [ts_builtin_sym_end]),
      (ACTIONS 136, [sym_header_comment]),
      (STATE 19, [aux_sym_license_header_repeat1]),
      (ACTIONS 139, [sym_frontmatter_delimiter, anon_sym_LBRACE_LBRACE_POUND, anon_sym_LBRACE_LBRACE, anon_sym_LBRACE_LBRACE_BANG, anon_sym_LBRACE_LBRACE_BANG_DASH_DASH, anon_sym_LT_LT_LTdotprompt_COLON, sym_text])]
  else if index = 585 then
     [(ACTIONS 141, [anon_sym_EQ]),
      (ACTIONS 143, [sym_path, anon_sym_true, anon_sym_false]),
      (ACTIONS 118, [anon_sym_RBRACE_RBRACE, aux_sym_variable_reference_token1, anon_sym_DQUOTE, anon_sym_SQUOTE, sym_number])]
  else if index = 601 then
     [(ACTIONS 147, [sym_path, anon_sym_true, anon_sym_false]),
      (ACTIONS 145, [anon_sym_RBRACE_RBRACE, aux_sym_variable_reference_token1, anon_sym_DQUOTE, anon_sym_SQUOTE, sym_number])]
  else if index = 614 then
     [(ACTIONS 143, [sym_path, anon_sym_true, anon_sym_false]),
      (ACTIONS 118, [anon_sym_RBRACE_RBRACE, aux_sym_variable_reference_token1, anon_sym_DQUOTE, anon_sym_SQUOTE, sym_number])]
  else if index = 627 then
     [(ACTIONS 151, [sym_path, anon_sym_true, anon_sym_false]),
      (ACTIONS 149, [anon_sym_RBRACE_RBRACE, aux_sym_variable_reference_token1, anon_sym_DQUOTE, anon_sym_SQUOTE, sym_number])]
  else if index = 640 then
     [(ACTIONS 155, [sym_path, anon_sym_true, anon_sym_false]),
      (ACTIONS 153, [anon_sym_RBRACE_RBRACE, aux_sym_variable_reference_token1, anon_sym_DQUOTE, anon_sym_SQUOTE, sym_number])]
  else if index = 653 then
     [(ACTIONS 159, [sym_path, anon_sym_true, anon_sym_false]),
      (ACTIONS 157, [anon_sym_RBRACE_RBRACE, aux_sym_variable_reference_token1, anon_sym_DQUOTE, anon_sym_SQUOTE, sym_number])]
  else if index = 666 then
     [(ACTIONS 161, [anon_sym_LBRACE_LBRACE_POUND, anon_sym_LBRACE_LBRACE_SLASH, anon_sym_LBRACE_LBRACE, anon_sym_LBRACE_LBRACE_BANG, anon_sym_LBRACE_LBRACE_BANG_DASH_DASH, anon_sym_LT_LT_LTdotprompt_COLON, sym_text])]
  else if index = 676 then
     [(ACTIONS 163, [ts_builtin_sym_end]),
      (ACTIONS 165, [anon_sym_LBRACE_LBRACE_POUND, anon_sym_LBRACE_LBRACE, anon_sym_LBRACE_LBRACE_BANG, anon_sym_LBRACE_LBRACE_BANG_DASH_DASH, anon_sym_LT_LT_LTdotprompt_COLON, sym_text])]
  else if index = 688 then
     [(ACTIONS 167, [ts_builtin_sym_end]),
      (ACTIONS 169, [anon_sym_LBRACE_LBRACE_POUND, anon_sym_LBRACE_LBRACE, anon_sym_LBRACE_LBRACE_BANG, anon_sym_LBRACE_LBRACE_BANG_DASH_DASH, anon_sym_LT_LT_LTdotprompt_COLON, sym_text])]
  else if index = 700 then
     [(ACTIONS 171, [ts_builtin_sym_end]),
      (ACTIONS 173, [anon_sym_LBRACE_LBRACE_POUND, anon_sym_LBRACE_LBRACE, anon_sym_LBRACE_LBRACE_BANG, anon_sym_LBRACE_LBRACE_BANG_DASH_DASH, anon_sym_LT_LT_LTdotprompt_COLON, sym_text])]
  else if index = 712 then
     [(ACTIONS 173, [anon_sym_LBRACE_LBRACE_POUND, anon_sym_LBRACE_LBRACE_SLASH, anon_sym_LBRACE_LBRACE, anon_sym_LBRACE_LBRACE_BANG, anon_sym_LBRACE_LBRACE_BANG_DASH_DASH, anon_sym_LT_LT_LTdotprompt_COLON, sym_text])]
  else if index = 722 then
     [(ACTIONS 175, [anon_sym_LBRACE_LBRACE_POUND, anon_sym_LBRACE_LBRACE_SLASH, anon_sym_LBRACE_LBRACE, anon_sym_LBRACE_LBRACE_BANG, anon_sym_LBRACE_LBRACE_BANG_DASH_DASH, anon_sym_LT_LT_LTdotprompt_COLON, sym_text])]
  else if index = 732 then
     [(ACTIONS 177, [anon_sym_LBRACE_LBRACE_POUND, anon_sym_LBRACE_LBRACE_SLASH, anon_sym_LBRACE_LBRACE, anon_sym_LBRACE_LBRACE_BANG, anon_sym_LBRACE_LBRACE_BANG_DASH_DASH, anon_sym_LT_LT_LTdotprompt_COLON, sym_text])]
  else if index = 742 then
     [(ACTIONS 181, [sym_frontmatter_delimiter]),
      (ACTIONS 183, [aux_sym_yaml_line_token1]),
      (STATE 35, [aux_sym_frontmatter_repeat1]),
      (ACTIONS 179, [sym_header_comment, aux_sym__yaml_content_token1]),
      (STATE 49, [sym__yaml_content, sym_yaml_line])]
  else if index = 760 then
     [(ACTIONS 188, [sym_frontmatter_delimiter]),
      (ACTIONS 190, [aux_sym_yaml_line_token1]),
      (STATE 34, [aux_sym_frontmatter_repeat1]),
      (ACTIONS 185, [sym_header_comment, aux_sym__yaml_content_token1]),
      (STATE 49, [sym__yaml_content, sym_yaml_line])]
  else if index = 778 then
     [(ACTIONS 183, [aux_sym_yaml_line_token1]),
      (ACTIONS 193, [sym_frontmatter_delimiter]),
      (STATE 34, [aux_sym_frontmatter_repeat1]),
      (ACTIONS 179, [sym_header_comment, aux_sym__yaml_content_token1]),
      (STATE 49, [sym__yaml_content, sym_yaml_line])]
  else if index = 796 then
     [(ACTIONS 195, [anon_sym_LBRACE_LBRACE_POUND, anon_sym_LBRACE_LBRACE_SLASH, anon_sym_LBRACE_LBRACE, anon_sym_LBRACE_LBRACE_BANG, anon_sym_LBRACE_LBRACE_BANG_DASH_DASH, anon_sym_LT_LT_LTdotprompt_COLON, sym_text])]
  else if index = 806 then
     [(ACTIONS 197, [ts_builtin_sym_end]),
      (ACTIONS 199, [anon_sym_LBRACE_LBRACE_POUND, anon_sym_LBRACE_LBRACE, anon_sym_LBRACE_LBRACE_BANG, anon_sym_LBRACE_LBRACE_BANG_DASH_DASH, anon_sym_LT_LT_LTdotprompt_COLON, sym_text])]
  else if index = 818 then
     [(ACTIONS 201, [ts_builtin_sym_end]),
      (ACTIONS 203, [anon_sym_LBRACE_LBRACE_POUND, anon_sym_LBRACE_LBRACE, anon_sym_LBRACE_LBRACE_BANG, anon_sym_LBRACE_LBRACE_BANG_DASH_DASH, anon_sym_LT_LT_LTdotprompt_COLON, sym_text])]
  else if index = 830 then
     [(ACTIONS 205, [ts_builtin_sym_end]),
      (ACTIONS 207, [anon_sym_LBRACE_LBRACE_POUND, anon_sym_LBRACE_LBRACE, anon_sym_LBRACE_LBRACE_BANG, anon_sym_LBRACE_LBRACE_BANG_DASH_DASH, anon_sym_LT_LT_LTdotprompt_COLON, sym_text])]
  else if index = 842 then
     [(ACTIONS 199, [anon_sym_LBRACE_LBRACE_POUND, anon_sym_LBRACE_LBRACE_SLASH, anon_sym_LBRACE_LBRACE, anon_sym_LBRACE_LBRACE_BANG, anon_sym_LBRACE_LBRACE_BANG_DASH_DASH, anon_sym_LT_LT_LTdotprompt_COLON, sym_text])]
  else if index = 852 then
     [(ACTIONS 207, [anon_sym_LBRACE_LBRACE_POUND, anon_sym_LBRACE_LBRACE_SLASH, anon_sym_LBRACE_LBRACE, anon_sym_LBRACE_LBRACE_BANG, anon_sym_LBRACE_LBRACE_BANG_DASH_DASH, anon_sym_LT_LT_LTdotprompt_COLON, sym_text])]
  else if index = 862 then
     [(ACTIONS 165, [anon_sym_LBRACE_LBRACE_POUND, anon_sym_LBRACE_LBRACE_SLASH, anon_sym_LBRACE_LBRACE, anon_sym_LBRACE_LBRACE_BANG, anon_sym_LBRACE_LBRACE_BANG_DASH_DASH, anon_sym_LT_LT_LTdotprompt_COLON, sym_text])]
  else if index = 872 then
     [(ACTIONS 209, [ts_builtin_sym_end]),
      (ACTIONS 175, [anon_sym_LBRACE_LBRACE_POUND, anon_sym_LBRACE_LBRACE, anon_sym_LBRACE_LBRACE_BANG, anon_sym_LBRACE_LBRACE_BANG_DASH_DASH, anon_sym_LT_LT_LTdotprompt_COLON, sym_text])]
  else if index = 884 then
     [(ACTIONS 211, [ts_builtin_sym_end]),
      (ACTIONS 161, [anon_sym_LBRACE_LBRACE_POUND, anon_sym_LBRACE_LBRACE, anon_sym_LBRACE_LBRACE_BANG, anon_sym_LBRACE_LBRACE_BANG_DASH_DASH, anon_sym_LT_LT_LTdotprompt_COLON, sym_text])]
  else if index = 896 then
     [(ACTIONS 86, [aux_sym_variable_reference_token1]),
      (ACTIONS 213, [anon_sym_GT]),
      (ACTIONS 215, [anon_sym_else]),
      (ACTIONS 217, [sym_path]),
      (STATE 67, [sym_variable_reference]),
      (STATE 76, [sym_expression_content])]
  else if index = 915 then
     [(ACTIONS 86, [aux_sym_variable_reference_token1]),
      (ACTIONS 213, [anon_sym_GT]),
      (ACTIONS 215, [anon_sym_else]),
      (ACTIONS 217, [sym_path]),
      (STATE 67, [sym_variable_reference]),
      (STATE 79, [sym_expression_content])]
  else if index = 934 then
     [(ACTIONS 219, [sym_header_comment, sym_frontmatter_delimiter, aux_sym__yaml_content_token1, aux_sym_yaml_line_token1])]
  else if index = 941 then
     [(ACTIONS 221, [sym_header_comment, sym_frontmatter_delimiter, aux_sym__yaml_content_token1, aux_sym_yaml_line_token1])]
  else if index = 948 then
     [(ACTIONS 223, [sym_header_comment, sym_frontmatter_delimiter, aux_sym__yaml_content_token1, aux_sym_yaml_line_token1])]
  else if index = 955 then
     [(ACTIONS 225, [aux_sym_frontmatter_token1]),
      (ACTIONS 227, [aux_sym_yaml_line_token2])]
  else if index = 962 then
     [(ACTIONS 229, [anon_sym_RBRACE_RBRACE])]
  else if index = 966 then
     [(ACTIONS 231, [anon_sym_RBRACE_RBRACE])]
  else if index = 970 then
     [(ACTIONS 233, [aux_sym_frontmatter_token1])]
  else if index = 974 then
     [(ACTIONS 235, [aux_sym_string_literal_token2])]
  else if index = 978 then
     [(ACTIONS 237, [aux_sym_frontmatter_token1])]
  else if index = 982 then
     [(ACTIONS 239, [aux_sym_string_literal_token1])]
  else if index = 986 then
     [(ACTIONS 241, [anon_sym_DQUOTE])]
  else if index = 990 then
     [(ACTIONS 241, [anon_sym_SQUOTE])]
  else if index = 994 then
     [(ACTIONS 243, [anon_sym_COLON])]
  else if index = 998 then
     [(ACTIONS 245, [aux_sym_frontmatter_token1])]
  else if index = 1002 then
     [(ACTIONS 247, [sym_path])]
  else if index = 1006 then
     [(ACTIONS 23, [ts_builtin_sym_end])]
  else if index = 1010 then
     [(ACTIONS 249, [aux_sym_frontmatter_token1])]
  else if index = 1014 then
     [(ACTIONS 251, [anon_sym_GT_GT_GT])]
  else if index = 1018 then
     [(ACTIONS 229, [anon_sym_DASH_DASH_RBRACE_RBRACE])]
  else if index = 1022 then
     [(ACTIONS 253, [anon_sym_RBRACE_RBRACE])]
  else if index = 1026 then
     [(ACTIONS 255, [anon_sym_RBRACE_RBRACE])]
  else if index = 1030 then
     [(ACTIONS 257, [ts_builtin_sym_end])]
  else if index = 1034 then
     [(ACTIONS 259, [anon_sym_GT_GT_GT])]
  else if index = 1038 then
     [(ACTIONS 261, [anon_sym_RBRACE_RBRACE])]
  else if index = 1042 then
     [(ACTIONS 263, [sym_path])]
  else if index = 1046 then
     [(ACTIONS 21, [ts_builtin_sym_end])]
  else if index = 1050 then
     [(ACTIONS 265, [ts_builtin_sym_end])]
  else if index = 1054 then
     [(ACTIONS 267, [aux_sym_dotprompt_marker_token1])]
  else if index = 1058 then
     [(ACTIONS 269, [aux_sym_handlebars_comment_token2])]
  else if index = 1062 then
     [(ACTIONS 271, [anon_sym_RBRACE_RBRACE])]
  else if index = 1066 then
     [(ACTIONS 273, [anon_sym_RBRACE_RBRACE])]
  else if index = 1070 then
     [(ACTIONS 273, [anon_sym_DASH_DASH_RBRACE_RBRACE])]
  else if index = 1074 then
     [(ACTIONS 275, [anon_sym_RBRACE_RBRACE])]
  else if index = 1078 then
     [(ACTIONS 277, [aux_sym_handlebars_comment_token1])]
  else if index = 1082 then
     [(ACTIONS 279, [anon_sym_RBRACE_RBRACE])]
  else if index = 1086 then
     [(ACTIONS 281, [sym_path])]
  else if index = 1090 then
     [(ACTIONS 283, [aux_sym_handlebars_comment_token1])]
  else if index = 1094 then
     [(ACTIONS 285, [aux_sym_handlebars_comment_token2])]
  else if index = 1098 then
     [(ACTIONS 287, [aux_sym_dotprompt_marker_token1])]
  else if index = 1102 then
     [(ACTIONS 289, [sym_path])]
  else [])"

definition ts_small_parse_table_map :: "nat \<Rightarrow> nat" where
"ts_small_parse_table_map i =
    (if i < STATE_COUNT - LARGE_STATE_COUNT then
    [0, 42, 78, 114, 150, 186, 222, 258, 291, 324, 357, 390,
    423, 456, 489, 522, 547, 566, 585, 601, 614, 627, 640, 653,
    666, 676, 688, 700, 712, 722, 732, 742, 760, 778, 796, 806,
    818, 830, 842, 852, 862, 872, 884, 896, 915, 934, 941, 948,
    955, 962, 966, 970, 974, 978, 982, 986, 990, 994, 998, 1002,
    1006, 1010, 1014, 1018, 1022, 1026, 1030, 1034, 1038, 1042, 1046, 1050,
    1054, 1058, 1062, 1066, 1070, 1074, 1078, 1082, 1086, 1090, 1094, 1098,
    1102] ! i
     else 0)"

datatype TSParseAction =
    SHIFT TSStateId
  | SHIFT_REPEAT TSStateId
  | REDUCE TSSymbol nat int nat
  | RECOVER
  | ACCEPT_INPUT

text \<open>
  \<open>REDUCE(symbol, child_count, dynamic_precedence, production_id)\<close>. An entry of
  \<open>ts_parse_actions\<close> is a header with the count of its actions, followed by them.
\<close>

definition ts_parse_actions :: "nat \<Rightarrow> TSParseAction list" where
"ts_parse_actions index =
 (if index = 0 then []
  else if index = 1 then [RECOVER]
  else if index = 3 then [REDUCE sym_document 0 0 0]
  else if index = 5 then [SHIFT 18]
  else if index = 7 then [SHIFT 53]
  else if index = 9 then [SHIFT 82]
  else if index = 11 then [SHIFT 46]
  else if index = 13 then [SHIFT 80]
  else if index = 15 then [SHIFT 75]
  else if index = 17 then [SHIFT 74]
  else if index = 19 then [SHIFT 10]
  else if index = 21 then [REDUCE sym_document 1 0 0]
  else if index = 23 then [REDUCE sym_document 2 0 0]
  else if index = 25 then [SHIFT 86]
  else if index = 27 then [SHIFT 45]
  else if index = 29 then [SHIFT 83]
  else if index = 31 then [SHIFT 84]
  else if index = 33 then [SHIFT 85]
  else if index = 35 then [SHIFT 9]
  else if index = 37 then [SHIFT 4]
  else if index = 39 then [SHIFT 61]
  else if index = 41 then [SHIFT 6]
  else if index = 43 then [REDUCE aux_sym_template_body_repeat1 2 0 0, SHIFT_REPEAT 82]
  else if index = 46 then [REDUCE aux_sym_template_body_repeat1 2 0 0]
  else if index = 48 then [REDUCE aux_sym_template_body_repeat1 2 0 0, SHIFT_REPEAT 45]
  else if index = 51 then [REDUCE aux_sym_template_body_repeat1 2 0 0, SHIFT_REPEAT 83]
  else if index = 54 then [REDUCE aux_sym_template_body_repeat1 2 0 0, SHIFT_REPEAT 84]
  else if index = 57 then [REDUCE aux_sym_template_body_repeat1 2 0 0, SHIFT_REPEAT 85]
  else if index = 60 then [REDUCE aux_sym_template_body_repeat1 2 0 0, SHIFT_REPEAT 9]
  else if index = 63 then [REDUCE sym_template_body 1 0 0]
  else if index = 65 then [SHIFT 11]
  else if index = 67 then [REDUCE aux_sym_template_body_repeat1 2 0 0]
  else if index = 69 then [REDUCE aux_sym_template_body_repeat1 2 0 0, SHIFT_REPEAT 46]
  else if index = 72 then [REDUCE aux_sym_template_body_repeat1 2 0 0, SHIFT_REPEAT 80]
  else if index = 75 then [REDUCE aux_sym_template_body_repeat1 2 0 0, SHIFT_REPEAT 75]
  else if index = 78 then [REDUCE aux_sym_template_body_repeat1 2 0 0, SHIFT_REPEAT 74]
  else if index = 81 then [REDUCE aux_sym_template_body_repeat1 2 0 0, SHIFT_REPEAT 11]
  else if index = 84 then [SHIFT 36]
  else if index = 86 then [SHIFT 22]
  else if index = 88 then [SHIFT 20]
  else if index = 90 then [SHIFT 56]
  else if index = 92 then [SHIFT 54]
  else if index = 94 then [SHIFT 21]
  else if index = 96 then [SHIFT 25]
  else if index = 98 then [REDUCE aux_sym_block_expression_repeat1 2 0 0]
  else if index = 100 then [REDUCE aux_sym_block_expression_repeat1 2 0 0, SHIFT_REPEAT 22]
  else if index = 103 then [REDUCE aux_sym_block_expression_repeat1 2 0 0, SHIFT_REPEAT 20]
  else if index = 106 then [REDUCE aux_sym_block_expression_repeat1 2 0 0, SHIFT_REPEAT 56]
  else if index = 109 then [REDUCE aux_sym_block_expression_repeat1 2 0 0, SHIFT_REPEAT 54]
  else if index = 112 then [REDUCE aux_sym_block_expression_repeat1 2 0 0, SHIFT_REPEAT 21]
  else if index = 115 then [REDUCE aux_sym_block_expression_repeat1 2 0 0, SHIFT_REPEAT 25]
  else if index = 118 then [REDUCE sym_variable_reference 1 0 0]
  else if index = 120 then [REDUCE sym_expression_content 2 0 4]
  else if index = 122 then [SHIFT 32]
  else if index = 124 then [SHIFT 22]
  else if index = 126 then [SHIFT 24]
  else if index = 128 then [REDUCE sym_license_header 1 0 0]
  else if index = 130 then [SHIFT 19]
  else if index = 132 then [REDUCE sym_license_header 1 0 0]
  else if index = 134 then [REDUCE aux_sym_license_header_repeat1 2 0 0]
  else if index = 136 then [REDUCE aux_sym_license_header_repeat1 2 0 0, SHIFT_REPEAT 19]
  else if index = 139 then [REDUCE aux_sym_license_header_repeat1 2 0 0]
  else if index = 141 then [SHIFT 17]
  else if index = 143 then [REDUCE sym_variable_reference 1 0 0]
  else if index = 145 then [REDUCE sym_argument 1 0 0]
  else if index = 147 then [REDUCE sym_argument 1 0 0]
  else if index = 149 then [REDUCE sym_string_literal 3 0 0]
  else if index = 151 then [REDUCE sym_string_literal 3 0 0]
  else if index = 153 then [REDUCE sym_hash_param 3 0 7]
  else if index = 155 then [REDUCE sym_hash_param 3 0 7]
  else if index = 157 then [REDUCE sym_boolean 1 0 0]
  else if index = 159 then [REDUCE sym_boolean 1 0 0]
  else if index = 161 then [REDUCE sym_handlebars_comment 3 0 0]
  else if index = 163 then [REDUCE sym_close_block 3 0 2]
  else if index = 165 then [REDUCE sym_close_block 3 0 2]
  else if index = 167 then [REDUCE sym_frontmatter 5 0 6]
  else if index = 169 then [REDUCE sym_frontmatter 5 0 6]
  else if index = 171 then [REDUCE sym_handlebars_block 2 0 0]
  else if index = 173 then [REDUCE sym_handlebars_block 2 0 0]
  else if index = 175 then [REDUCE sym_handlebars_expression 3 0 0]
  else if index = 177 then [REDUCE sym_block_expression 4 0 2]
  else if index = 179 then [SHIFT 49]
  else if index = 181 then [SHIFT 60]
  else if index = 183 then [SHIFT 59]
  else if index = 185 then [REDUCE aux_sym_frontmatter_repeat1 2 0 0, SHIFT_REPEAT 49]
  else if index = 188 then [REDUCE aux_sym_frontmatter_repeat1 2 0 0]
  else if index = 190 then [REDUCE aux_sym_frontmatter_repeat1 2 0 0, SHIFT_REPEAT 59]
  else if index = 193 then [SHIFT 55]
  else if index = 195 then [REDUCE sym_block_expression 3 0 2]
  else if index = 197 then [REDUCE sym_dotprompt_marker 3 0 0]
  else if index = 199 then [REDUCE sym_dotprompt_marker 3 0 0]
  else if index = 201 then [REDUCE sym_frontmatter 4 0 0]
  else if index = 203 then [REDUCE sym_frontmatter 4 0 0]
  else if index = 205 then [REDUCE sym_handlebars_block 3 0 0]
  else if index = 207 then [REDUCE sym_handlebars_block 3 0 0]
  else if index = 209 then [REDUCE sym_handlebars_expression 3 0 0]
  else if index = 211 then [REDUCE sym_handlebars_comment 3 0 0]
  else if index = 213 then [SHIFT 71]
  else if index = 215 then [SHIFT 70]
  else if index = 217 then [SHIFT 14]
  else if index = 219 then [REDUCE sym_yaml_line 3 0 5]
  else if index = 221 then [REDUCE sym_yaml_line 4 0 8]
  else if index = 223 then [REDUCE aux_sym_frontmatter_repeat1 1 0 0]
  else if index = 225 then [SHIFT 47]
  else if index = 227 then [SHIFT 63]
  else if index = 229 then [SHIFT 44]
  else if index = 231 then [SHIFT 27]
  else if index = 233 then [SHIFT 33]
  else if index = 235 then [SHIFT 58]
  else if index = 237 then [SHIFT 28]
  else if index = 239 then [SHIFT 57]
  else if index = 241 then [SHIFT 23]
  else if index = 243 then [SHIFT 50]
  else if index = 245 then [SHIFT 38]
  else if index = 247 then [SHIFT 52]
  else if index = 249 then [SHIFT 48]
  else if index = 251 then [SHIFT 37]
  else if index = 253 then [REDUCE sym_expression_content 2 0 3]
  else if index = 255 then [REDUCE sym_expression_content 1 0 1]
  else if index = 257 then [REDUCE sym_document 3 0 0]
  else if index = 259 then [SHIFT 40]
  else if index = 261 then [REDUCE sym_expression_content 1 0 0]
  else if index = 263 then [SHIFT 66]
  else if index = 265 then [ACCEPT_INPUT]
  else if index = 267 then [SHIFT 64]
  else if index = 269 then [SHIFT 65]
  else if index = 271 then [SHIFT 31]
  else if index = 273 then [SHIFT 26]
  else if index = 275 then [SHIFT 43]
  else if index = 277 then [SHIFT 51]
  else if index = 279 then [SHIFT 42]
  else if index = 281 then [SHIFT 12]
  else if index = 283 then [SHIFT 77]
  else if index = 285 then [SHIFT 78]
  else if index = 287 then [SHIFT 69]
  else if index = 289 then [SHIFT 81]
  else [])"

fun lookup_sections :: "(nat \<times> TSSymbol list) list \<Rightarrow> TSSymbol \<Rightarrow> nat" where
  "lookup_sections [] symbol = 0"
| "lookup_sections ((section_value, symbols) # sections) symbol =
     (if symbol \<in> set symbols then section_value else lookup_sections sections symbol)"

definition ts_language_lookup :: "TSStateId \<Rightarrow> TSSymbol \<Rightarrow> nat" where
  "ts_language_lookup state symbol =
     (if state < LARGE_STATE_COUNT then ts_parse_table state symbol
      else if state < STATE_COUNT
      then lookup_sections
             (ts_small_parse_table (ts_small_parse_table_map (state - LARGE_STATE_COUNT))) symbol
      else 0)"

section \<open>The syntax builder\<close>

text \<open>
  Modelled from the spec: the shift/reduce engine that reads the tables. The engine is
  the parser runtime that calls \<open>tree_sitter_dotprompt()\<close> for the tables; it is not under
  src/. The spec (4.2) has a table-driven shift/reduce engine that consumes the token
  stream and assembles a concrete syntax tree, the builder supplying the lexical mode
  before each call of the tokenizer (4.1). So: the lookahead token is read in the lexer
  state of the parse state on top of the stack; \<open>SHIFT\<close> pushes the token as a leaf and
  the next token is read; \<open>REDUCE\<close> pops \<open>child_count\<close> subtrees, makes them the
  children of a node of the symbol (tagged with the production id, which selects the field
  names and aliases of the children), and pushes the node on the state the table gives
  under that symbol, keeping the lookahead; \<open>ACCEPT_INPUT\<close> returns the tree. A
  \<open>SHIFT_REPEAT\<close> stands behind the \<open>REDUCE\<close> of a repetition in the same entry and is
  what the engine does after the reduction, in the state reached by it.

  Where no token can be read, or the table has no action for the lookahead, the spec (7)
  has the builder recover and put error nodes into the tree. The recovery is not in the
  tables; the engine stops there with the kind of the error, so a result \<open>Inr t\<close> is a
  parse without any error node, and \<open>Inl e\<close> stands for every tree with an error node.
  \<open>None\<close> is an engine that does not return.
\<close>

datatype tree = Leaf token | Node TSSymbol nat "tree list"

datatype parse_error =
    LexicalError TSStateId
  | StructuralError TSStateId TSSymbol
  | TableError

type_synonym parse_stack = "(TSStateId \<times> tree) list"

definition top_state :: "parse_stack \<Rightarrow> TSStateId" where
  "top_state stack = (case stack of [] \<Rightarrow> 1 | (state, t) # below \<Rightarrow> state)"

definition next_token :: "TSStateId \<Rightarrow> token option \<Rightarrow> int list \<Rightarrow> (token \<times> int list) option" where
  "next_token state lookahead inp =
     (case lookahead of
        Some tok \<Rightarrow> Some (tok, inp)
      | None \<Rightarrow> ts_lex (ts_lex_modes state) inp)"

partial_function (option) ts_parser_loop ::
  "parse_stack \<Rightarrow> token option \<Rightarrow> int list \<Rightarrow> (parse_error + tree) option" where
  "ts_parser_loop stack lookahead inp =
     (case next_token (top_state stack) lookahead inp of
        None \<Rightarrow> Some (Inl (LexicalError (top_state stack)))
      | Some (tok, rest) \<Rightarrow>
          (case ts_parse_actions (ts_language_lookup (top_state stack) (tok_sym tok)) of
             SHIFT next_state # actions \<Rightarrow>
               ts_parser_loop ((next_state, Leaf tok) # stack) None rest
           | REDUCE symbol child_count dynamic_precedence production_id # actions \<Rightarrow>
               (if length stack < child_count then Some (Inl TableError)
                else ts_parser_loop
                       ((ts_language_lookup (top_state (drop child_count stack)) symbol,
                         Node symbol production_id (rev (map snd (take child_count stack))))
                        # drop child_count stack)
                       (Some tok) rest)
           | ACCEPT_INPUT # actions \<Rightarrow>
               (case stack of
                  [(state, t)] \<Rightarrow> Some (Inr t)
                | _ \<Rightarrow> Some (Inl TableError))
           | _ \<Rightarrow> Some (Inl (StructuralError (top_state stack) (tok_sym tok)))))"

declare ts_parser_loop.simps [code]

definition parse :: "int list \<Rightarrow> (parse_error + tree) option" where
  "parse source_text = ts_parser_loop [] None source_text"

abbreviation (input) bytes :: "string \<Rightarrow> int list" where
  "bytes s \<equiv> map of_char s"


subsection \<open>Character classes of the lexer and the leaves of a tree\<close>

text \<open>
  The tests \<open>ts_lex\<close> repeats: white space \<open>('\t' <= lookahead && lookahead <= '\r') ||
  lookahead == ' '\<close>, the first character of a path \<open>[A-Za-z_]\<close>, and the characters
  that continue one, \<open>[.0-9A-Za-z_]\<close>.
\<close>

definition is_space :: "int \<Rightarrow> bool" where
  "is_space c \<longleftrightarrow> (9 \<le> c \<and> c \<le> 13) \<or> c = ch CHR '' ''"


definition is_path_char :: "int \<Rightarrow> bool" where
  "is_path_char c \<longleftrightarrow>
     c = ch CHR ''.'' \<or> (ch CHR ''0'' \<le> c \<and> c \<le> ch CHR ''9'') \<or>
     (ch CHR ''A'' \<le> c \<and> c \<le> ch CHR ''Z'') \<or> c = ch CHR ''_'' \<or>
     (ch CHR ''a'' \<le> c \<and> c \<le> ch CHR ''z'')"


text \<open>The next character of an input, as the lexer sees it, is not of a class.\<close>

definition ends_before :: "(int \<Rightarrow> bool) \<Rightarrow> int list \<Rightarrow> bool" where
  "ends_before p inp = (case inp of [] \<Rightarrow> True | c # cs \<Rightarrow> \<not> p c)"

fun leaves :: "tree \<Rightarrow> token list" where
  "leaves (Leaf tok) = [tok]"
| "leaves (Node symbol production_id children) = concat (map leaves children)"

text \<open>The characters a token covers: its padding and its text.\<close>

definition tok_chars :: "token \<Rightarrow> int list" where
  "tok_chars tok = tok_padding tok @ tok_text tok"








section \<open>Properties of the parser\<close>

text \<open>
  The equations that run the lexer and the engine on a given input.
\<close>

lemmas lex_eval = ts_lex_def ts_lex_case_simps accept_token_def advance_def

lemmas engine_eval = parse_def ts_parser_loop.simps next_token_def top_state_def
  ts_language_lookup_def ts_parse_table_def ts_small_parse_table_def
  ts_small_parse_table_map_def ts_parse_actions_def ts_lex_modes_def

lemmas parse_eval = engine_eval lex_eval


subsection \<open>Runs of the lexer automaton\<close>

text \<open>
  Passing through a state consumes the lookahead after the state's \<open>ACCEPT_TOKEN\<close>.
\<close>

abbreviation (input) lexer0 :: TSLexer where
  "lexer0 \<equiv> \<lparr>result = False, result_symbol = 0, position = 0, token_start = 0, token_end = 0\<rparr>"

definition lex_enter :: "TSSymbol option \<Rightarrow> TSLexer \<Rightarrow> TSLexer" where
  "lex_enter acc lexer = advance False False (accept_token acc lexer)"

lemma accept_token_fields [simp]:
  "position (accept_token acc L) = position L"
  "token_start (accept_token acc L) = token_start L"
  "result (accept_token (Some s) L) = True"
  "result_symbol (accept_token (Some s) L) = s"
  "token_end (accept_token (Some s) L) = position L"
  "accept_token None L = L"
  by (simp_all add: accept_token_def split: option.splits)

lemma lex_enter_fields [simp]:
  "position (lex_enter acc L) = position L + 1"
  "token_start (lex_enter acc L) = token_start L"
  "result (lex_enter (Some s) L) = True"
  "result_symbol (lex_enter (Some s) L) = s"
  "token_end (lex_enter (Some s) L) = position L"
  "result (lex_enter None L) = result L"
  "result_symbol (lex_enter None L) = result_symbol L"
  "token_end (lex_enter None L) = token_end L"
  by (simp_all add: lex_enter_def advance_def)

lemma lex_enter_funpow_fields [simp]:
  "position ((lex_enter acc ^^ n) L) = position L + n"
  "token_start ((lex_enter acc ^^ n) L) = token_start L"
  by (induction n) simp_all

lemma ts_lex_loop_step:
  "snd (ts_lex_case st False c) = ADVANCE st' \<Longrightarrow>
   ts_lex_loop st L (c # cs) = ts_lex_loop st' (lex_enter (fst (ts_lex_case st False c)) L) cs"
  by (simp add: lex_enter_def)

text \<open>A state that loops on every character of \<open>cs\<close> consumes \<open>cs\<close>.\<close>

lemma ts_lex_loop_self:
  assumes "\<forall>c\<in>set cs. ts_lex_case st False c = (acc, ADVANCE st)"
  shows "ts_lex_loop st L (cs @ tail) = ts_lex_loop st ((lex_enter acc ^^ length cs) L) tail"
  using assms
proof (induction cs arbitrary: L)
  case Nil
  then show ?case by simp
next
  case (Cons c cs)
  have "ts_lex_loop st L ((c # cs) @ tail) = ts_lex_loop st (lex_enter acc L) (cs @ tail)"
    using Cons.prems by (simp add: lex_enter_def)
  also have "\<dots> = ts_lex_loop st ((lex_enter acc ^^ length cs) (lex_enter acc L)) tail"
    using Cons.IH Cons.prems by simp
  finally show ?case by (simp add: funpow_swap1)
qed

text \<open>A state that stops at the lookahead returns what was accepted last.\<close>

lemma ts_lex_loop_stop:
  assumes "ts_lex_case st (inp = []) (case inp of [] \<Rightarrow> 0 | c # cs \<Rightarrow> c) = (acc, END_STATE)"
  shows "ts_lex_loop st L inp = accept_token acc L"
  using assms by (cases inp) simp_all

text \<open>The token of a run that accepted: padding, text and rest split the input.\<close>

lemma ts_lex_token:
  assumes "ts_lex_loop st lexer0 (pad @ txt @ rest) = F"
    and "result F" and "result_symbol F = s"
    and "token_start F = length pad" and "token_end F = length pad + length txt"
  shows "ts_lex st (pad @ txt @ rest) =
     Some (\<lparr>tok_sym = s, tok_padding = pad, tok_text = txt\<rparr>, rest)"
  using assms by (simp add: ts_lex_def Let_def)



text \<open>The states without a move return their token whatever follows.\<close>

lemma ts_lex_loop_final [simp]:
  "ts_lex_loop 40 L inp = accept_token (Some ts_builtin_sym_end) L"
  "ts_lex_loop 44 L inp = accept_token (Some sym_frontmatter_delimiter) L"
  "ts_lex_loop 47 L inp = accept_token (Some anon_sym_COLON) L"
  "ts_lex_loop 50 L inp = accept_token (Some anon_sym_LBRACE_LBRACE_POUND) L"
  "ts_lex_loop 51 L inp = accept_token (Some anon_sym_RBRACE_RBRACE) L"
  "ts_lex_loop 52 L inp = accept_token (Some anon_sym_LBRACE_LBRACE_SLASH) L"
  "ts_lex_loop 55 L inp = accept_token (Some anon_sym_GT) L"
  "ts_lex_loop 61 L inp = accept_token (Some anon_sym_LBRACE_LBRACE_BANG_DASH_DASH) L"
  "ts_lex_loop 64 L inp = accept_token (Some anon_sym_DASH_DASH_RBRACE_RBRACE) L"
  "ts_lex_loop 65 L inp = accept_token (Some anon_sym_EQ) L"
  "ts_lex_loop 78 L inp = accept_token (Some anon_sym_DQUOTE) L"
  "ts_lex_loop 81 L inp = accept_token (Some anon_sym_SQUOTE) L"
  "ts_lex_loop 88 L inp = accept_token (Some anon_sym_LT_LT_LTdotprompt_COLON) L"
  "ts_lex_loop 91 L inp = accept_token (Some anon_sym_GT_GT_GT) L"
  "ts_lex_loop 92 L inp = accept_token (Some sym_text) L"
  by (rule ts_lex_loop_stop, simp add: ts_lex_case_simps)+





subsection \<open>C3: the name of a close marker\<close>




subsection \<open>C4: the frontmatter delimiter\<close>

text \<open>
  The claim C4 has \<open>---\<close> tokenized as \<open>frontmatter_delimiter\<close> in frontmatter mode
  (lexer state 4) only when the end of the line or of the input follows. State 44, reached
  on the third dash, accepts the delimiter and looks no further: \<open>---x\<close> gives the
  delimiter and leaves \<open>x\<close>.
\<close>

theorem C4_counterexample_midline_delimiter:
  "ts_lex 4 (bytes ''---x'') =
     Some (\<lparr>tok_sym = sym_frontmatter_delimiter, tok_padding = [], tok_text = bytes ''---''\<rparr>,
           bytes ''x'')"
  by (simp add: lex_eval)

text \<open>
  C4, amended. In frontmatter mode three dashes at the start of the token are tokenized
  as \<open>frontmatter_delimiter\<close> whatever follows them.
\<close>

theorem C4_delimiter_whatever_follows:
  "ts_lex 4 (bytes ''---'' @ rest) =
     Some (\<lparr>tok_sym = sym_frontmatter_delimiter, tok_padding = [], tok_text = bytes ''---''\<rparr>,
           rest)"
  by (simp add: lex_eval)


subsection \<open>C5: the comment \<open>{{!-- ... --}}\<close>\<close>

text \<open>
  C5 (the code at the input of the claim). After \<open>{{!--\<close> the content of the comment is
  read in lexer state 62. States 62 and 63 advance on every character but NUL, the dashes
  and braces of \<open>--}}\<close> included, so the content token runs to the end of the input; the
  closing token is never produced, and the engine meets the end of the input in state 65,
  which has an action for \<open>--}}\<close> only. The input of the claim does not parse without
  error.
\<close>

theorem C5_dash_comment_not_closed:
  "ts_lex 62 (bytes '' note --}}'') =
     Some (\<lparr>tok_sym = aux_sym_handlebars_comment_token2, tok_padding = [],
             tok_text = bytes '' note --}}''\<rparr>, [])
   \<and> parse (bytes ''{{!-- note --}}'') = Some (Inl (StructuralError 65 ts_builtin_sym_end))"
  by (simp add: parse_eval)


subsection \<open>Template text: what a text token can hold\<close>












subsection \<open>C6: the content of a marker\<close>

text \<open>
  After \<open><<<dotprompt:\<close> the content is read in lexer state 30. The states 30, 89 and
  90 advance on every character but \<open>>\<close> and NUL (white space at the start keeps the
  automaton in state 89, any other character moves it to state 90), and state 30 itself
  accepts nothing: the content is not empty and ends before the first \<open>>\<close>.
\<close>

lemma marker_tail:
  assumes "st \<in> {89, 90}" and "\<forall>c\<in>set cs. c \<noteq> ch CHR ''>'' \<and> c \<noteq> 0"
  shows "ts_lex_loop st L (cs @ ch CHR ''>'' # rest) =
     accept_token (Some aux_sym_dotprompt_marker_token1)
       ((lex_enter (Some aux_sym_dotprompt_marker_token1) ^^ length cs) L)"
  using assms
proof (induction cs arbitrary: st L)
  case Nil
  then show ?case by (auto simp: ts_lex_case_simps)
next
  case (Cons c cs)
  have "\<exists>s1\<in>{89, 90}. snd (ts_lex_case st False c) = ADVANCE s1
      \<and> fst (ts_lex_case st False c) = Some aux_sym_dotprompt_marker_token1"
    using Cons.prems by (auto simp: ts_lex_case_simps split: if_splits)
  then obtain s1 where s1: "s1 \<in> {89, 90}" "snd (ts_lex_case st False c) = ADVANCE s1"
      "fst (ts_lex_case st False c) = Some aux_sym_dotprompt_marker_token1"
    by blast
  have "ts_lex_loop st L ((c # cs) @ ch CHR ''>'' # rest) =
      ts_lex_loop s1 (lex_enter (Some aux_sym_dotprompt_marker_token1) L) (cs @ ch CHR ''>'' # rest)"
    using ts_lex_loop_step[OF s1(2)] s1(3) by simp
  also have "\<dots> = accept_token (Some aux_sym_dotprompt_marker_token1)
       ((lex_enter (Some aux_sym_dotprompt_marker_token1) ^^ length cs)
          (lex_enter (Some aux_sym_dotprompt_marker_token1) L))"
    using Cons.IH[OF s1(1)] Cons.prems(2) by simp
  finally show ?case by (simp add: funpow_swap1)
qed

lemma marker_content_token:
  assumes "content \<noteq> []" and "\<forall>c\<in>set content. c \<noteq> ch CHR ''>'' \<and> c \<noteq> 0"
  shows "ts_lex 30 (content @ ch CHR ''>'' # rest) =
     Some (\<lparr>tok_sym = aux_sym_dotprompt_marker_token1, tok_padding = [], tok_text = content\<rparr>,
           ch CHR ''>'' # rest)"
proof -
  obtain c cs where content: "content = c # cs"
    using assms(1) by (cases content) auto
  then have cs: "\<forall>c\<in>set cs. c \<noteq> ch CHR ''>'' \<and> c \<noteq> 0"
    using assms(2) by auto
  have "\<exists>s1\<in>{89, 90}. snd (ts_lex_case 30 False c) = ADVANCE s1
      \<and> fst (ts_lex_case 30 False c) = None"
    using assms(2) content by (auto simp: ts_lex_case_simps split: if_splits)
  then obtain s1 where s1: "s1 \<in> {89, 90}" "snd (ts_lex_case 30 False c) = ADVANCE s1"
      "fst (ts_lex_case 30 False c) = None"
    by blast
  have "ts_lex_loop 30 lexer0 (content @ ch CHR ''>'' # rest) =
      ts_lex_loop s1 (lex_enter None lexer0) (cs @ ch CHR ''>'' # rest)"
    using ts_lex_loop_step[OF s1(2)] s1(3) content by simp
  then have F: "ts_lex_loop 30 lexer0 (content @ ch CHR ''>'' # rest) =
      accept_token (Some aux_sym_dotprompt_marker_token1)
        ((lex_enter (Some aux_sym_dotprompt_marker_token1) ^^ length cs) (lex_enter None lexer0))"
    using marker_tail[OF s1(1) cs] by simp
  show ?thesis
    using ts_lex_token[of 30 "[]" content "ch CHR ''>'' # rest" _ aux_sym_dotprompt_marker_token1]
      F content
    by simp
qed

text \<open>
  The claim C6 has the marker hold for every content without the closing \<open>>>>\<close>. A
  content with a single \<open>>\<close> stops the content token there, and the lexer state
  of the parse state that follows (state 64, lexer state 3) finds no \<open>>>>\<close>.
\<close>

theorem C6_counterexample_single_gt:
  "parse (bytes ''<<<dotprompt: a>b >>>'') = Some (Inl (LexicalError 64))"
  by (simp add: parse_eval)

text \<open>
  C6, amended. For every content that is not empty and holds neither \<open>>\<close> nor NUL,
  \<open><<<dotprompt:\<close> content \<open>>>>\<close> parses without error to a single
  \<open>dotprompt_marker\<close> node whose marker content is the content, unchanged and with
  no structure inside; \<open>" raw stuff "\<close> is such a content.
\<close>

theorem C6_marker_content_opaque:
  assumes "content \<noteq> []" and "\<forall>c\<in>set content. c \<noteq> ch CHR ''>'' \<and> c \<noteq> 0"
  shows "parse (bytes ''<<<dotprompt:'' @ content @ bytes ''>>>'') =
     Some (Inr (Node sym_document 0 [Node sym_template_body 0 [Node sym_dotprompt_marker 0
       [Leaf \<lparr>tok_sym = anon_sym_LT_LT_LTdotprompt_COLON, tok_padding = [],
               tok_text = bytes ''<<<dotprompt:''\<rparr>,
        Leaf \<lparr>tok_sym = aux_sym_dotprompt_marker_token1, tok_padding = [], tok_text = content\<rparr>,
        Leaf \<lparr>tok_sym = anon_sym_GT_GT_GT, tok_padding = [], tok_text = bytes ''>>>''\<rparr>]]]))"
proof -
  have t1: "ts_lex 37 (bytes ''<<<dotprompt:'' @ rest) =
      Some (\<lparr>tok_sym = anon_sym_LT_LT_LTdotprompt_COLON, tok_padding = [],
              tok_text = bytes ''<<<dotprompt:''\<rparr>, rest)" for rest
    by (simp add: lex_eval)
  have t2: "ts_lex 30 (content @ bytes ''>>>'') =
      Some (\<lparr>tok_sym = aux_sym_dotprompt_marker_token1, tok_padding = [], tok_text = content\<rparr>,
            bytes ''>>>'')"
    using marker_content_token[OF assms, of "bytes ''>>''"] by simp
  have t3: "ts_lex 3 (bytes ''>>>'') =
      Some (\<lparr>tok_sym = anon_sym_GT_GT_GT, tok_padding = [], tok_text = bytes ''>>>''\<rparr>, [])"
    by (simp add: lex_eval)
  have t4: "ts_lex 39 [] = Some (\<lparr>tok_sym = ts_builtin_sym_end, tok_padding = [], tok_text = []\<rparr>, [])"
    by (simp add: lex_eval)
  show ?thesis
    using t1[of "content @ bytes ''>>>''"] t2 t3 t4
    by (simp add: engine_eval)
qed

theorem C6_witness_raw_stuff:
  "parse (bytes ''<<<dotprompt: raw stuff >>>'') =
     Some (Inr (Node sym_document 0 [Node sym_template_body 0 [Node sym_dotprompt_marker 0
       [Leaf \<lparr>tok_sym = anon_sym_LT_LT_LTdotprompt_COLON, tok_padding = [],
               tok_text = bytes ''<<<dotprompt:''\<rparr>,
        Leaf \<lparr>tok_sym = aux_sym_dotprompt_marker_token1, tok_padding = [],
               tok_text = bytes '' raw stuff ''\<rparr>,
        Leaf \<lparr>tok_sym = anon_sym_GT_GT_GT, tok_padding = [], tok_text = bytes ''>>>''\<rparr>]]]))"
  using C6_marker_content_opaque [of "bytes '' raw stuff ''"]
  by simp

subsection \<open>C7: a lone brace is text\<close>

text \<open>
  Template text is read in the lexer states 5, 37, 38 and 39. White space at the start of
  a token leads to the states 96, 93, 94 and 95, which loop on white space; \<open>{\<close>
  leads to state 100 or 101, which accept \<open>sym_text\<close> and go on to the states of
  \<open>{{\<close> on a second brace only.
\<close>

lemma space_run:
  assumes "st \<in> {93, 94, 95, 96}" and "\<forall>c\<in>set ws. is_space c"
  shows "ts_lex_loop st L (ws @ tail) = ts_lex_loop st ((lex_enter (Some sym_text) ^^ length ws) L) tail"
proof -
  have "\<forall>c\<in>set ws. ts_lex_case st False c = (Some sym_text, ADVANCE st)"
    using assms by (auto simp: ts_lex_case_simps is_space_def)
  then show ?thesis by (rule ts_lex_loop_self)
qed

lemma brace_stop:
  assumes "st \<in> {100, 101}" and "ends_before (\<lambda>c. c = ch CHR ''{'') rest"
  shows "ts_lex_loop st L rest = accept_token (Some sym_text) L"
  using assms
  by (intro ts_lex_loop_stop) (auto simp: ts_lex_case_simps ends_before_def split: list.splits)

lemma lone_brace_run:
  assumes "state \<in> {5, 37, 38, 39}" and "\<forall>c\<in>set ws. is_space c"
    and "ends_before (\<lambda>c. c = ch CHR ''{'') rest"
  shows "\<exists>F. ts_lex_loop state lexer0 (ws @ ch CHR ''{'' # rest) = F \<and> result F
     \<and> result_symbol F = sym_text \<and> token_start F = 0 \<and> token_end F = length ws + 1"
proof (cases ws)
  case Nil
  then show ?thesis using assms(1,3)
    by (auto simp: ts_lex_case_simps brace_stop advance_def)
next
  case (Cons w ws')
  then have w: "is_space w" and ws': "\<forall>c\<in>set ws'. is_space c"
    using assms(2) by auto
  from w have ne: "w \<noteq> 35" "w \<noteq> 45" "w \<noteq> 60" "w \<noteq> 123" "w \<noteq> 0"
    by (auto simp: is_space_def)
  show ?thesis using assms(1,3) Cons w ne
    by (auto simp: ts_lex_case_simps is_space_def space_run[OF _ ws'] brace_stop advance_def)
qed

text \<open>
  C7. In template text a \<open>{\<close> that is not followed by a second \<open>{\<close> (another
  character follows, or the input ends) is the last character of a \<open>sym_text\<close>
  token, together with the white space before it; it opens no handlebars construct.
\<close>

theorem C7_lone_brace_is_text:
  assumes "state \<in> {5, 37, 38, 39}" and "\<forall>c\<in>set ws. is_space c"
    and "ends_before (\<lambda>c. c = ch CHR ''{'') rest"
  shows "ts_lex state (ws @ ch CHR ''{'' # rest) =
     Some (\<lparr>tok_sym = sym_text, tok_padding = [], tok_text = ws @ [ch CHR ''{'']\<rparr>, rest)"
proof -
  obtain F where F: "ts_lex_loop state lexer0 (ws @ ch CHR ''{'' # rest) = F" "result F"
      "result_symbol F = sym_text" "token_start F = 0" "token_end F = length ws + 1"
    using lone_brace_run[OF assms] by auto
  show ?thesis
    using ts_lex_token[of state "[]" "ws @ [ch CHR ''{'']" rest F sym_text] F by simp
qed

theorem C7_witness_brace_x:
  "ts_lex 39 (bytes '' {x'') =
     Some (\<lparr>tok_sym = sym_text, tok_padding = [], tok_text = bytes '' {''\<rparr>, bytes ''x'')"
  using C7_lone_brace_is_text [of 39 "bytes '' ''" "bytes ''x''"]
  by (simp add: is_space_def ends_before_def)

subsection \<open>C8: the empty input\<close>

text \<open>
  C8. The empty input parses to a \<open>document\<close> node with no children, without error:
  in state 1 the lexer (state 37) returns the end token at once, the table reduces
  \<open>sym_document\<close> from no children, and state 73 accepts.
\<close>

theorem C8_empty_input_document:
  "parse [] = Some (Inr (Node sym_document 0 []))"
  by (simp add: parse_eval)


subsection \<open>C9: keywords are not cut out of longer paths\<close>


text \<open>
  A keyword that is followed by something else than a path character is the keyword
  token, in the states that know it: \<open>true\<close> and \<open>false\<close> among the arguments,
  \<open>else\<close> after \<open>{{\<close>.
\<close>

lemma keyword_tokens:
  assumes "ends_before is_path_char rest"
  shows "ts_lex 3 (bytes ''true'' @ rest) =
      Some (\<lparr>tok_sym = anon_sym_true, tok_padding = [], tok_text = bytes ''true''\<rparr>, rest)"
    and "ts_lex 3 (bytes ''false'' @ rest) =
      Some (\<lparr>tok_sym = anon_sym_false, tok_padding = [], tok_text = bytes ''false''\<rparr>, rest)"
    and "ts_lex 16 (bytes ''else'' @ rest) =
      Some (\<lparr>tok_sym = anon_sym_else, tok_padding = [], tok_text = bytes ''else''\<rparr>, rest)"
proof -
  have stop: "ts_lex_loop 86 L rest = accept_token (Some anon_sym_true) L"
    "ts_lex_loop 87 L rest = accept_token (Some anon_sym_false) L"
    "ts_lex_loop 57 L rest = accept_token (Some anon_sym_else) L" for L
    using assms
    by (intro ts_lex_loop_stop;
        auto simp: ts_lex_case_simps is_path_char_def ends_before_def split: list.splits)+
  show "ts_lex 3 (bytes ''true'' @ rest) =
      Some (\<lparr>tok_sym = anon_sym_true, tok_padding = [], tok_text = bytes ''true''\<rparr>, rest)"
    and "ts_lex 3 (bytes ''false'' @ rest) =
      Some (\<lparr>tok_sym = anon_sym_false, tok_padding = [], tok_text = bytes ''false''\<rparr>, rest)"
    and "ts_lex 16 (bytes ''else'' @ rest) =
      Some (\<lparr>tok_sym = anon_sym_else, tok_padding = [], tok_text = bytes ''else''\<rparr>, rest)"
    by (simp_all add: lex_eval stop)
qed




subsection \<open>C10: the character \<open>#\<close> in template text\<close>




text \<open>The three text leaves of \<open>a#b\<close> in the tree.\<close>

lemma parse_a_hash_b: "parse (bytes ''a#b'') = Some (Inr (Node sym_document 0 [Node sym_template_body 0
  [Node aux_sym_template_body_repeat1 0 [Node aux_sym_template_body_repeat1 0
     [Leaf \<lparr>tok_sym = sym_text, tok_padding = [], tok_text = bytes ''a''\<rparr>,
      Leaf \<lparr>tok_sym = sym_text, tok_padding = [], tok_text = bytes ''#''\<rparr>],
      Leaf \<lparr>tok_sym = sym_text, tok_padding = [], tok_text = bytes ''b''\<rparr>]]]))"
  by (simp add: parse_eval)

end
